theory Spec2Isabelle
  imports Complex_Main "HOL-Library.AList"
begin

unbundle bit_operations_syntax

section \<open>Python strings\<close>

text \<open>
  The agent pipeline of the repository (\<^verbatim>\<open>services/python-ai/app/agent\<close>) works on Python
  \<^verbatim>\<open>str\<close> values.  A text is modelled as a \<^typ>\<open>string\<close>, one \<^typ>\<open>char\<close> per code point,
  so the model covers the texts whose code points are below 256 (ASCII and Latin-1).
  The character classes are those of Python 3 for such code points: \<^verbatim>\<open>str.isspace\<close> and the
  pattern class \<^verbatim>\<open>\s\<close> hold for the codes 9-13, 28-31, 32, 133 and 160; \<^verbatim>\<open>\d\<close> for 48-57;
  \<^verbatim>\<open>\w\<close> for the alphanumeric code points and the underscore.
\<close>

definition is_space :: "char \<Rightarrow> bool" where
  "is_space c = (let n = of_char c :: nat in (9 \<le> n \<and> n \<le> 13) \<or> (28 \<le> n \<and> n \<le> 32) \<or> n = 133 \<or> n = 160)"

definition is_digit :: "char \<Rightarrow> bool" where
  "is_digit c = (let n = of_char c :: nat in 48 \<le> n \<and> n \<le> 57)"

definition is_ascii_upper :: "char \<Rightarrow> bool" where
  "is_ascii_upper c = (let n = of_char c :: nat in 65 \<le> n \<and> n \<le> 90)"

definition is_ascii_lower :: "char \<Rightarrow> bool" where
  "is_ascii_lower c = (let n = of_char c :: nat in 97 \<le> n \<and> n \<le> 122)"

definition is_upper :: "char \<Rightarrow> bool" where
  "is_upper c = (let n = of_char c :: nat in (65 \<le> n \<and> n \<le> 90) \<or> (192 \<le> n \<and> n \<le> 222 \<and> n \<noteq> 215))"

definition is_word :: "char \<Rightarrow> bool" where
  "is_word c = (let n = of_char c :: nat in
     (48 \<le> n \<and> n \<le> 57) \<or> (65 \<le> n \<and> n \<le> 90) \<or> n = 95 \<or> (97 \<le> n \<and> n \<le> 122) \<or>
     n = 170 \<or> n = 178 \<or> n = 179 \<or> n = 181 \<or> n = 185 \<or> n = 186 \<or> (188 \<le> n \<and> n \<le> 190) \<or>
     (192 \<le> n \<and> n \<noteq> 215 \<and> n \<noteq> 247))"

text \<open>
  \<^verbatim>\<open>str.lower\<close> and \<^verbatim>\<open>str.upper\<close> on one code point.  An upper-case letter below 256 has
  bit 5 of its code clear and its lower-case letter is 32 above it, so lowering sets the bit
  and raising clears it.  The lower-case letters whose upper-case form is below 256 are
  a-z and the codes 224-254 without 247.
\<close>

definition lower_chr :: "char \<Rightarrow> char" where
  "lower_chr c = (if is_upper c
     then (case c of Char b0 b1 b2 b3 b4 b5 b6 b7 \<Rightarrow> Char b0 b1 b2 b3 b4 True b6 b7) else c)"

definition upper_chr :: "char \<Rightarrow> char" where
  "upper_chr c = (if is_upper (case c of Char b0 b1 b2 b3 b4 b5 b6 b7 \<Rightarrow> Char b0 b1 b2 b3 b4 False b6 b7)
     then (case c of Char b0 b1 b2 b3 b4 b5 b6 b7 \<Rightarrow> Char b0 b1 b2 b3 b4 False b6 b7) else c)"

definition lower :: "string \<Rightarrow> string" where
  "lower s = map lower_chr s"

definition strip :: "string \<Rightarrow> string" where
  "strip s = rev (dropWhile is_space (rev (dropWhile is_space s)))"

fun startswith :: "string \<Rightarrow> string \<Rightarrow> bool" where
  "startswith s [] = True"
| "startswith [] (p # ps) = False"
| "startswith (c # cs) (p # ps) = (c = p \<and> startswith cs ps)"

text \<open>\<^verbatim>\<open>sub in s\<close>: the substring test.\<close>

fun contains :: "string \<Rightarrow> string \<Rightarrow> bool" where
  "contains [] sub = (sub = [])"
| "contains (c # cs) sub = (startswith (c # cs) sub \<or> contains cs sub)"

text \<open>
  \<^verbatim>\<open>s.replace(old, new)\<close> replaces the occurrences of \<^verbatim>\<open>old\<close> from left to right without
  overlap.  The second argument of \<open>replace_go\<close> is what is left to skip of the occurrence
  being replaced.  With an empty \<^verbatim>\<open>old\<close> Python puts \<^verbatim>\<open>new\<close> before every character and at
  the end.
\<close>

fun replace_go :: "string \<Rightarrow> string \<Rightarrow> string \<Rightarrow> string \<Rightarrow> string" where
  "replace_go old new skip [] = []"
| "replace_go old new (x # skip) (c # cs) = replace_go old new skip cs"
| "replace_go old new [] (c # cs) =
     (if startswith (c # cs) old then new @ replace_go old new (tl old) cs
      else c # replace_go old new [] cs)"

definition replace :: "string \<Rightarrow> string \<Rightarrow> string \<Rightarrow> string" where
  "replace s old new = (if old = [] then new @ concat (map (\<lambda>c. c # new) s) else replace_go old new [] s)"

text \<open>\<^verbatim>\<open>str(n)\<close> for a natural number and \<^verbatim>\<open>int(s)\<close> for a string of decimal digits.\<close>

definition digit_chr :: "nat \<Rightarrow> char" where
  "digit_chr n = ''0123456789'' ! n"

fun str_nat :: "nat \<Rightarrow> string" where
  "str_nat n = (if n < 10 then [digit_chr n] else str_nat (n div 10) @ [digit_chr (n mod 10)])"

declare str_nat.simps [simp del]

definition join :: "string \<Rightarrow> string list \<Rightarrow> string" where
  "join sep xs = (case xs of [] \<Rightarrow> [] | x # rest \<Rightarrow> x @ concat (map (\<lambda>y. sep @ y) rest))"

definition int_of_digits :: "string \<Rightarrow> nat" where
  "int_of_digits s = foldl (\<lambda>a c. 10 * a + (of_char c - 48)) 0 s"

section \<open>Regular expressions\<close>

text \<open>
  The patterns of the program are run by Python's \<^verbatim>\<open>re\<close>, a backtracking matcher.  A pattern is
  a \<open>regex\<close>; \<open>rmatch r cur\<close> lists the ways \<open>r\<close> matches at the cursor \<open>cur\<close> in the order in
  which the backtracking matcher tries them, so the head of the list is the match Python
  reports.  A cursor is the character before the position (none at the start of the text)
  and the rest of the text.  A result is the matched text, the groups captured (the latest
  capture of a group first) and the cursor after the match.

  \<open>Rep r lo hi\<close> is the greedy repetition \<^verbatim>\<open>r{lo,hi}\<close> (\<open>hi = None\<close>: no upper bound); an
  iteration has to consume a character, which every repeated part of the program's patterns
  does.  \<open>Sym p\<close> is a character class, \<open>WordB\<close> is \<^verbatim>\<open>\b\<close>, \<open>Bol\<close> is \<^verbatim>\<open>^\<close>, \<open>Eol\<close> is
  \<^verbatim>\<open>$\<close> (the end of the text, or just before a newline that ends it), \<open>Ahead r\<close>
  is \<^verbatim>\<open>(?=r)\<close> and \<open>Grp n r\<close> is the capturing group number \<open>n\<close>.
\<close>

type_synonym caps = "(nat \<times> string) list"
type_synonym cursor = "char option \<times> string"
type_synonym mres = "string \<times> caps \<times> cursor"

datatype regex =
    Eps
  | Sym "char \<Rightarrow> bool"
  | Seq regex regex
  | Alt regex regex
  | Rep regex nat "nat option"
  | Grp nat regex
  | WordB
  | Bol
  | Eol
  | Ahead regex

definition at_word_boundary :: "cursor \<Rightarrow> bool" where
  "at_word_boundary cur =
     ((case fst cur of None \<Rightarrow> False | Some p \<Rightarrow> is_word p)
       \<noteq> (case snd cur of [] \<Rightarrow> False | c # _ \<Rightarrow> is_word c))"

definition then_match :: "(cursor \<Rightarrow> mres list) \<Rightarrow> mres \<Rightarrow> mres list" where
  "then_match m r =
     (case r of (t1, g1, cur1) \<Rightarrow> map (\<lambda>(t2, g2, cur2). (t1 @ t2, g2 @ g1, cur2)) (m cur1))"

text \<open>
  The fourth argument of \<open>rep\<close> bounds the number of iterations by the length of the text
  that is left: it loses one character per iteration, as the text does at least.
\<close>

fun rep :: "(cursor \<Rightarrow> mres list) \<Rightarrow> nat \<Rightarrow> nat option \<Rightarrow> string \<Rightarrow> cursor \<Rightarrow> mres list" where
  "rep m lo hi [] cur = (if lo = 0 then [([], [], cur)] else [])"
| "rep m lo hi (f # fuel) cur =
     (if hi = Some 0 then [([], [], cur)]
      else concat (map (\<lambda>r. if fst r = [] then []
                           else then_match (rep m (lo - 1) (map_option (\<lambda>h. h - 1) hi) fuel) r) (m cur))
           @ (if lo = 0 then [([], [], cur)] else []))"

fun rmatch :: "regex \<Rightarrow> cursor \<Rightarrow> mres list" where
  "rmatch Eps cur = [([], [], cur)]"
| "rmatch (Sym p) cur =
     (case snd cur of [] \<Rightarrow> [] | c # cs \<Rightarrow> if p c then [([c], [], (Some c, cs))] else [])"
| "rmatch (Seq a b) cur = concat (map (then_match (rmatch b)) (rmatch a cur))"
| "rmatch (Alt a b) cur = rmatch a cur @ rmatch b cur"
| "rmatch (Rep r lo hi) cur = rep (rmatch r) lo hi (snd cur) cur"
| "rmatch (Grp n r) cur = map (\<lambda>(t, g, cur'). (t, (n, t) # g, cur')) (rmatch r cur)"
| "rmatch WordB cur = (if at_word_boundary cur then [([], [], cur)] else [])"
| "rmatch Bol cur = (if fst cur = None then [([], [], cur)] else [])"
| "rmatch Eol cur = (if snd cur = [] \<or> snd cur = [CHR 0x0A] then [([], [], cur)] else [])"
| "rmatch (Ahead r) cur = (if rmatch r cur = [] then [] else [([], [], cur)])"

text \<open>Literals, with and without \<^verbatim>\<open>re.I\<close>, and the usual abbreviations.\<close>

definition chr :: "char \<Rightarrow> regex" where
  "chr c = Sym (\<lambda>x. x = c)"

definition chr_i :: "char \<Rightarrow> regex" where
  "chr_i c = Sym (\<lambda>x. lower_chr x = lower_chr c)"

fun seqs :: "regex list \<Rightarrow> regex" where
  "seqs [] = Eps"
| "seqs [r] = r"
| "seqs (r # rs) = Seq r (seqs rs)"

fun alts :: "regex list \<Rightarrow> regex" where
  "alts [] = Eps"
| "alts [r] = r"
| "alts (r # rs) = Alt r (alts rs)"

definition lit :: "string \<Rightarrow> regex" where
  "lit s = seqs (map chr s)"

definition lit_i :: "string \<Rightarrow> regex" where
  "lit_i s = seqs (map chr_i s)"

definition ropt :: "regex \<Rightarrow> regex" where
  "ropt r = Rep r 0 (Some 1)"

definition rstar :: "regex \<Rightarrow> regex" where
  "rstar r = Rep r 0 None"

definition rplus :: "regex \<Rightarrow> regex" where
  "rplus r = Rep r 1 None"

definition rtimes :: "regex \<Rightarrow> nat \<Rightarrow> nat \<Rightarrow> regex" where
  "rtimes r lo hi = Rep r lo (Some hi)"

definition rtimes_min :: "regex \<Rightarrow> nat \<Rightarrow> regex" where
  "rtimes_min r lo = Rep r lo None"

text \<open>
  \<^verbatim>\<open>re.search\<close>: the first position, from the left, at which the pattern matches, with the
  text before the match, the matched text and the groups.  \<open>group m n\<close> is \<^verbatim>\<open>m.group(n)\<close>
  for \<open>n > 0\<close>, \<open>None\<close> when the group took no part in the match.
\<close>

record re_match =
  m_pre :: string
  m_text :: string
  m_caps :: caps

fun search_from :: "regex \<Rightarrow> string \<Rightarrow> char option \<Rightarrow> string \<Rightarrow> re_match option" where
  "search_from r pre p [] =
     (case rmatch r (p, []) of
        (t, g, cur') # _ \<Rightarrow> Some \<lparr>m_pre = rev pre, m_text = t, m_caps = g\<rparr>
      | [] \<Rightarrow> None)"
| "search_from r pre p (c # cs) =
     (case rmatch r (p, c # cs) of
        (t, g, cur') # _ \<Rightarrow> Some \<lparr>m_pre = rev pre, m_text = t, m_caps = g\<rparr>
      | [] \<Rightarrow> search_from r (c # pre) (Some c) cs)"

definition re_search :: "regex \<Rightarrow> string \<Rightarrow> re_match option" where
  "re_search r s = search_from r [] None s"

definition group :: "re_match \<Rightarrow> nat \<Rightarrow> string option" where
  "group m n = map_of (m_caps m) n"

text \<open>The text of a group that is not optional in its pattern, which took part in every match.\<close>

definition grp :: "re_match \<Rightarrow> nat \<Rightarrow> string" where
  "grp m n = (case group m n of Some t \<Rightarrow> t | None \<Rightarrow> [])"

text \<open>
  \<^verbatim>\<open>re.sub\<close> with a replacement function, \<^verbatim>\<open>re.split\<close> and \<^verbatim>\<open>re.findall\<close> scan the text from
  the left for matches that do not overlap.  The replacement function of the redactor counts
  its calls and fills a map, so \<open>re_sub\<close> threads a state through the calls.  The patterns
  given to the three functions in the program match at least one character; a position where
  the pattern matches the empty text is treated as a position where it does not match.
  The argument \<open>skip\<close> is what is left to pass over of the match found last.
\<close>

fun sub_go :: "regex \<Rightarrow> ('s \<Rightarrow> string \<Rightarrow> string \<times> 's) \<Rightarrow> string \<Rightarrow> char option \<Rightarrow> string \<Rightarrow> 's
    \<Rightarrow> string \<times> 's" where
  "sub_go r f skip p [] st = ([], st)"
| "sub_go r f (x # skip) p (c # cs) st = sub_go r f skip (Some c) cs st"
| "sub_go r f [] p (c # cs) st =
     (case rmatch r (p, c # cs) of
        (x # t, g, cur') # _ \<Rightarrow>
          (case f st (x # t) of (new, st') \<Rightarrow>
             (case sub_go r f t (Some c) cs st' of (out, st'') \<Rightarrow> (new @ out, st'')))
      | _ \<Rightarrow> (case sub_go r f [] (Some c) cs st of (out, st') \<Rightarrow> (c # out, st')))"

definition re_sub :: "regex \<Rightarrow> ('s \<Rightarrow> string \<Rightarrow> string \<times> 's) \<Rightarrow> string \<Rightarrow> 's \<Rightarrow> string \<times> 's" where
  "re_sub r f s st = sub_go r f [] None s st"

fun split_go :: "regex \<Rightarrow> string \<Rightarrow> string \<Rightarrow> char option \<Rightarrow> string \<Rightarrow> string list" where
  "split_go r piece skip p [] = [rev piece]"
| "split_go r piece (x # skip) p (c # cs) = split_go r piece skip (Some c) cs"
| "split_go r piece [] p (c # cs) =
     (case rmatch r (p, c # cs) of
        (x # t, g, cur') # _ \<Rightarrow> rev piece # split_go r [] t (Some c) cs
      | _ \<Rightarrow> split_go r (c # piece) [] (Some c) cs)"

definition re_split :: "regex \<Rightarrow> string \<Rightarrow> string list" where
  "re_split r s = split_go r [] [] None s"

fun findall_go :: "regex \<Rightarrow> string \<Rightarrow> char option \<Rightarrow> string \<Rightarrow> string list" where
  "findall_go r skip p [] = []"
| "findall_go r (x # skip) p (c # cs) = findall_go r skip (Some c) cs"
| "findall_go r [] p (c # cs) =
     (case rmatch r (p, c # cs) of
        (x # t, g, cur') # _ \<Rightarrow> (x # t) # findall_go r t (Some c) cs
      | _ \<Rightarrow> findall_go r [] (Some c) cs)"

definition re_findall :: "regex \<Rightarrow> string \<Rightarrow> string list" where
  "re_findall r s = findall_go r [] None s"

section \<open>The context window (\<^verbatim>\<open>context_window.py\<close>)\<close>

text \<open>
  The module keeps two globals, the focus \<^verbatim>\<open>state\<close> and the list \<^verbatim>\<open>recent_messages\<close>; they
  are the record \<open>context_window\<close>, which every operation takes and returns.  The clock
  \<^verbatim>\<open>int(time.time() * 1000)\<close> is an argument of the operations that read it.  Scores are
  Python floats; the model computes with real numbers.
\<close>

definition MAX_SEMANTIC_TURNS :: nat where
  "MAX_SEMANTIC_TURNS = 10"

definition DECAY_FACTOR :: real where
  "DECAY_FACTOR = 0.6"

definition MIN_ACTIVE_SCORE :: real where
  "MIN_ACTIVE_SCORE = 0.2"

record WindowState =
  entryId :: string
  entryType :: string
  createdAt :: int
  decayScore :: real

record RecentMessage =
  rm_text :: string
  rm_ts :: int
  rm_score :: real
  isReceipt :: bool

record context_window =
  cw_state :: "WindowState option"
  recent_messages :: "RecentMessage list"

record Snapshot =
  snap_entryId :: string
  snap_entryType :: string
  snap_createdAt :: int
  snap_decayScore :: real
  snap_isActive :: bool

text \<open>The pattern \<^verbatim>\<open>[^a-z0-9]+\<close> under \<^verbatim>\<open>re.IGNORECASE\<close>.\<close>

definition token_split_re :: regex where
  "token_split_re = rplus (Sym (\<lambda>c. \<not> (is_ascii_lower c \<or> is_ascii_upper c \<or> is_digit c)))"

definition compute_message_score :: "string \<Rightarrow> real" where
  "compute_message_score text =
     (let trimmed = lower (strip text) in
      if trimmed = [] then 0
      else let tokens = filter (\<lambda>token. token \<noteq> []) (re_split token_split_re trimmed) in
        if tokens = [] then 0
        else let avg_length = real (sum_list (map length tokens)) / real (length tokens);
                 base = min 1 (real (length tokens) / 12);
                 lexical = min 1 (avg_length / 5)
             in min 1 (base * 0.6 + lexical * 0.4))"

definition is_receipt_message :: "string \<Rightarrow> bool" where
  "is_receipt_message text =
     (let lowered = lower text in contains lowered ''receipt'' \<or> contains lowered ''confirmed'')"

text \<open>
  \<^verbatim>\<open>list.sort\<close> is stable, also with \<^verbatim>\<open>reverse=True\<close>, and so is \<^const>\<open>sort_key\<close>; the
  descending sort is the sort by the negated timestamp.  The loop that pops the front of
  \<^verbatim>\<open>preserved\<close> is \<open>pop_excess\<close>.
\<close>

definition preserve_step :: "RecentMessage list \<Rightarrow> RecentMessage \<Rightarrow> RecentMessage list" where
  "preserve_step preserved message =
     (if isReceipt message then preserved @ [message]
      else if length preserved < MAX_SEMANTIC_TURNS then preserved @ [message]
      else preserved)"

function pop_excess :: "RecentMessage list \<Rightarrow> RecentMessage list" where
  "pop_excess preserved =
     (if length preserved > MAX_SEMANTIC_TURNS then pop_excess (tl preserved) else preserved)"
  by pat_completeness auto
termination
  by (relation "measure length") (auto simp: MAX_SEMANTIC_TURNS_def)

declare pop_excess.simps [simp del]

definition prune_low_signal_messages :: "RecentMessage list \<Rightarrow> RecentMessage list" where
  "prune_low_signal_messages msgs =
     (let newest_first = sort_key (\<lambda>msg. - rm_ts msg) msgs;
          preserved = foldl preserve_step [] newest_first
      in pop_excess (sort_key rm_ts preserved))"

definition apply_decay :: "bool \<Rightarrow> int \<Rightarrow> context_window \<Rightarrow> context_window" where
  "apply_decay created_entry now_ms cw =
     (case cw_state cw of
        None \<Rightarrow> cw
      | Some st \<Rightarrow>
          if created_entry then cw\<lparr>cw_state := Some (st\<lparr>decayScore := 1, createdAt := now_ms\<rparr>)\<rparr>
          else let st' = st\<lparr>decayScore := decayScore st * DECAY_FACTOR\<rparr> in
            if decayScore st' < MIN_ACTIVE_SCORE then cw\<lparr>cw_state := None\<rparr>
            else cw\<lparr>cw_state := Some st'\<rparr>)"

definition register_entry :: "string \<Rightarrow> string \<Rightarrow> int \<Rightarrow> context_window \<Rightarrow> context_window" where
  "register_entry entry_id entry_type now_ms cw =
     cw\<lparr>cw_state := Some \<lparr>entryId = entry_id, entryType = entry_type, createdAt = now_ms, decayScore = 1\<rparr>\<rparr>"

definition refresh_entry :: "string \<Rightarrow> string \<Rightarrow> int \<Rightarrow> context_window \<Rightarrow> context_window" where
  "refresh_entry entry_id entry_type now_ms cw =
     (let effective_type =
            (if entry_type \<noteq> ''unknown'' then entry_type
             else case cw_state cw of Some st \<Rightarrow> entryType st | None \<Rightarrow> ''unknown'')
      in cw\<lparr>cw_state := Some \<lparr>entryId = entry_id, entryType = effective_type, createdAt = now_ms,
                                  decayScore = 1\<rparr>\<rparr>)"

definition clear :: "context_window \<Rightarrow> context_window" where
  "clear cw = \<lparr>cw_state = None, recent_messages = []\<rparr>"

definition snapshot :: "context_window \<Rightarrow> Snapshot option" where
  "snapshot cw =
     (case cw_state cw of
        None \<Rightarrow> None
      | Some st \<Rightarrow>
          Some \<lparr>snap_entryId = entryId st, snap_entryType = entryType st, snap_createdAt = createdAt st,
                snap_decayScore = decayScore st, snap_isActive = (decayScore st \<ge> MIN_ACTIVE_SCORE)\<rparr>)"

definition record_user_message :: "string \<Rightarrow> int \<Rightarrow> context_window \<Rightarrow> context_window" where
  "record_user_message text now_ms cw =
     (if text = [] then cw
      else let score = compute_message_score text;
               receipt = is_receipt_message text;
               message = \<lparr>rm_text = text, rm_ts = now_ms, rm_score = (if receipt then 1 else score),
                          isReceipt = receipt\<rparr>;
               msgs = prune_low_signal_messages (recent_messages cw @ [message])
           in case cw_state cw of
                None \<Rightarrow> cw\<lparr>recent_messages := msgs\<rparr>
              | Some st \<Rightarrow>
                  let st' = st\<lparr>decayScore := min 1 (decayScore st * DECAY_FACTOR + rm_score message * 0.5)\<rparr>
                  in if decayScore st' < MIN_ACTIVE_SCORE \<and> \<not> receipt
                     then cw\<lparr>cw_state := None, recent_messages := msgs\<rparr>
                     else cw\<lparr>cw_state := Some st', recent_messages := msgs\<rparr>)"

text \<open>A sequence of \<^verbatim>\<open>record_user_message\<close> calls, each with its text and the clock at the call.\<close>

definition record_all :: "(string \<times> int) list \<Rightarrow> context_window \<Rightarrow> context_window" where
  "record_all calls cw = foldl (\<lambda>w call. record_user_message (fst call) (snd call) w) cw calls"

definition recent :: "context_window \<Rightarrow> RecentMessage list" where
  "recent cw = drop (length (recent_messages cw) - MAX_SEMANTIC_TURNS) (recent_messages cw)"

definition advance_turn :: "bool \<Rightarrow> int \<Rightarrow> context_window \<Rightarrow> context_window" where
  "advance_turn created_entry now_ms cw = apply_decay created_entry now_ms cw"


section \<open>The embedder (\<^verbatim>\<open>embeddings.py\<close>)\<close>

text \<open>
  Vectors are lists of Python floats, modelled as lists of real numbers (so \<^verbatim>\<open>math.isfinite\<close>
  always holds).  The global \<^verbatim>\<open>_custom_embedder\<close> is an argument: \<open>None\<close> when no embedder is
  configured; a configured embedder returns \<open>None\<close> when it raises.  The text is encoded as
  UTF-8: one byte for a code point below 128 and two bytes for the others below 256.
  \<^verbatim>\<open>hash_value\<close> is a Python integer, which is unbounded.
\<close>

definition FALLBACK_DIMENSION :: nat where
  "FALLBACK_DIMENSION = 384"

text \<open>The L2 norm \<^verbatim>\<open>math.sqrt(sum(v * v for v in values))\<close> of a vector.\<close>

definition l2_norm :: "real list \<Rightarrow> real" where
  "l2_norm values = sqrt (sum_list (map (\<lambda>v. v * v) values))"

definition l2_normalize :: "real list \<Rightarrow> real list" where
  "l2_normalize values =
     (let norm = l2_norm values in
      if norm \<le> 0 then (if values = [] then replicate FALLBACK_DIMENSION 0 else map (\<lambda>v. 0) values)
      else map (\<lambda>v. v / norm) values)"

definition utf8_encode :: "string \<Rightarrow> nat list" where
  "utf8_encode text =
     concat (map (\<lambda>c. let n = of_char c :: nat in
                       if n < 128 then [n] else [192 + n div 64, 128 + n mod 64]) text)"

definition embed_step :: "int \<times> real list \<Rightarrow> nat \<times> nat \<Rightarrow> int \<times> real list" where
  "embed_step acc item =
     (case acc of (hash_value, output) \<Rightarrow>
      case item of (index, byte) \<Rightarrow>
        let hash_value' = (hash_value XOR int byte) * 16777619;
            idx = nat (\<bar>hash_value' + int index * 31\<bar> mod int FALLBACK_DIMENSION)
        in (hash_value', output[idx := output ! idx + (real byte / 255 * 2 - 1)]))"

definition fallback_embed :: "string \<Rightarrow> real list" where
  "fallback_embed text =
     l2_normalize (snd (foldl embed_step (2166136261, replicate FALLBACK_DIMENSION 0)
                          (enumerate 0 (utf8_encode text))))"

definition embed_text :: "(string \<Rightarrow> real list option) option \<Rightarrow> string \<Rightarrow> real list" where
  "embed_text custom_embedder text =
     (if text = [] then
        (case custom_embedder of
           None \<Rightarrow> replicate FALLBACK_DIMENSION 0
         | Some embedder \<Rightarrow>
             (case embedder [] of
                Some zeros \<Rightarrow> if zeros \<noteq> [] then l2_normalize zeros else replicate FALLBACK_DIMENSION 0
              | None \<Rightarrow> replicate FALLBACK_DIMENSION 0))
      else
        (case custom_embedder of
           None \<Rightarrow> fallback_embed text
         | Some embedder \<Rightarrow>
             (case embedder text of
                Some vector \<Rightarrow> if vector \<noteq> [] then l2_normalize vector else fallback_embed text
              | None \<Rightarrow> fallback_embed text)))"

section \<open>The memory store (\<^verbatim>\<open>memory.py\<close>)\<close>

text \<open>
  \<^verbatim>\<open>_memory_cache\<close> is a Python dict from row ids to rows, which keeps its keys in insertion
  order: an association list, with \<^const>\<open>AList.update\<close> for the assignment to a key (the value
  is replaced in place, a new key goes to the end).  The options of \<^verbatim>\<open>upsert\<close> are a dict with
  the required keys \<^verbatim>\<open>id\<close> and \<^verbatim>\<open>kind\<close> and the optional keys \<^verbatim>\<open>text\<close>, \<^verbatim>\<open>ts\<close> and
  \<^verbatim>\<open>embedding\<close>.  The clock is an argument.
\<close>

definition MAX_CACHED_ROWS :: nat where
  "MAX_CACHED_ROWS = 512"

record MemoryRow =
  row_id :: string
  row_kind :: string
  row_text :: string
  row_ts :: int
  row_embedding :: "real list"

record MemoryRecord = MemoryRow +
  score :: real

record upsert_options =
  opt_id :: string
  opt_kind :: string
  opt_text :: "string option"
  opt_ts :: "int option"
  opt_embedding :: "real list option"

type_synonym memory_cache = "(string \<times> MemoryRow) list"

definition upsert_row :: "(string \<Rightarrow> real list option) option \<Rightarrow> int \<Rightarrow> upsert_options \<Rightarrow> MemoryRow" where
  "upsert_row custom_embedder now_ms options =
     (let ts = (case opt_ts options of Some t \<Rightarrow> t | None \<Rightarrow> now_ms);
          text = (case opt_text options of Some t \<Rightarrow> t | None \<Rightarrow> []);
          embedding = (case opt_embedding options of
                         Some e \<Rightarrow> if e \<noteq> [] then e else embed_text custom_embedder text
                       | None \<Rightarrow> embed_text custom_embedder text);
          normalized = l2_normalize embedding
      in \<lparr>row_id = opt_id options, row_kind = opt_kind options, row_text = text, row_ts = ts,
          row_embedding = normalized\<rparr>)"

definition upsert :: "(string \<Rightarrow> real list option) option \<Rightarrow> int \<Rightarrow> upsert_options \<Rightarrow> memory_cache
    \<Rightarrow> memory_cache" where
  "upsert custom_embedder now_ms options cache =
     (let row = upsert_row custom_embedder now_ms options;
          cache' = AList.update (row_id row) row cache
      in if length cache' > MAX_CACHED_ROWS
         then let oldest = take MAX_CACHED_ROWS (sort_key (\<lambda>v. - row_ts v) (map snd cache'))
              in foldl (\<lambda>d r. AList.update (row_id r) r d) [] oldest
         else cache')"

definition remove :: "string \<Rightarrow> memory_cache \<Rightarrow> memory_cache" where
  "remove rid cache = filter (\<lambda>kv. fst kv \<noteq> rid) cache"

text \<open>
  The invariant of the cache: no key occurs twice and every key is the id of its row.
\<close>

definition cache_inv :: "memory_cache \<Rightarrow> bool" where
  "cache_inv cache = (distinct (map fst cache) \<and> list_all (\<lambda>kv. row_id (snd kv) = fst kv) cache)"

text \<open>A sequence of \<^verbatim>\<open>upsert\<close> calls, each with the reading of the clock at the call.\<close>

definition upsert_all :: "(string \<Rightarrow> real list option) option \<Rightarrow> (int \<times> upsert_options) list
    \<Rightarrow> memory_cache \<Rightarrow> memory_cache" where
  "upsert_all custom_embedder calls cache =
     foldl (\<lambda>c call. upsert custom_embedder (fst call) (snd call) c) cache calls"

section \<open>The redactor (\<^verbatim>\<open>redactor.py\<close>)\<close>

text \<open>
  The four patterns of \<^verbatim>\<open>PATTERNS\<close>, in the order of the list:
  \<^item> email \<^verbatim>\<open>[A-Za-z0-9._%+-]+@[A-Za-z0-9.-]+\.[A-Za-z]{2,}\<close>
  \<^item> phone \<^verbatim>\<open>(?:\+?\d{1,3}[\s-]?)?(?:\(\d{2,3}\)|\d{2,3})[\s-]?\d{3}[\s-]?\d{4}\<close>
  \<^item> card \<^verbatim>\<open>\b(?:\d[\s-]*){13,19}\d\b\<close>
  \<^item> address \<^verbatim>\<open>\b\d{1,5}\s+[^\n,]+(?:Street|St\.?|Avenue|Ave\.?|Road|Rd\.?|Boulevard|Blvd\.?|Lane|Ln\.?|Drive|Dr\.?|Court|Ct\.?|Place|Pl\.?)\b\<close>
    with \<^verbatim>\<open>re.I\<close>.
\<close>

definition is_ascii_alnum :: "char \<Rightarrow> bool" where
  "is_ascii_alnum c = (is_ascii_upper c \<or> is_ascii_lower c \<or> is_digit c)"

definition space_or_dash :: regex where
  "space_or_dash = Sym (\<lambda>c. is_space c \<or> c = CHR ''-'')"

definition email_re :: regex where
  "email_re = seqs [
     rplus (Sym (\<lambda>c. is_ascii_alnum c \<or> c \<in> set ''._%+-'')),
     chr CHR ''@'',
     rplus (Sym (\<lambda>c. is_ascii_alnum c \<or> c \<in> set ''.-'')),
     chr CHR ''.'',
     rtimes_min (Sym (\<lambda>c. is_ascii_upper c \<or> is_ascii_lower c)) 2]"

definition phone_re :: regex where
  "phone_re = seqs [
     ropt (seqs [ropt (chr CHR ''+''), rtimes (Sym is_digit) 1 3, ropt space_or_dash]),
     Alt (seqs [chr CHR ''('', rtimes (Sym is_digit) 2 3, chr CHR '')'']) (rtimes (Sym is_digit) 2 3),
     ropt space_or_dash,
     rtimes (Sym is_digit) 3 3,
     ropt space_or_dash,
     rtimes (Sym is_digit) 4 4]"

definition card_re :: regex where
  "card_re = seqs [WordB, rtimes (Seq (Sym is_digit) (rstar space_or_dash)) 13 19, Sym is_digit, WordB]"

definition address_re :: regex where
  "address_re = seqs [
     WordB, rtimes (Sym is_digit) 1 5, rplus (Sym is_space),
     rplus (Sym (\<lambda>c. c \<noteq> CHR 0x0A \<and> c \<noteq> CHR '','')),
     alts [lit_i ''Street'', Seq (lit_i ''St'') (ropt (chr CHR ''.'')),
           lit_i ''Avenue'', Seq (lit_i ''Ave'') (ropt (chr CHR ''.'')),
           lit_i ''Road'', Seq (lit_i ''Rd'') (ropt (chr CHR ''.'')),
           lit_i ''Boulevard'', Seq (lit_i ''Blvd'') (ropt (chr CHR ''.'')),
           lit_i ''Lane'', Seq (lit_i ''Ln'') (ropt (chr CHR ''.'')),
           lit_i ''Drive'', Seq (lit_i ''Dr'') (ropt (chr CHR ''.'')),
           lit_i ''Court'', Seq (lit_i ''Ct'') (ropt (chr CHR ''.'')),
           lit_i ''Place'', Seq (lit_i ''Pl'') (ropt (chr CHR ''.''))],
     WordB]"

record PatternConfig =
  pc_name :: string
  pc_regex :: regex
  pc_mask :: "nat \<Rightarrow> string"
  is_match_valid :: "(string \<Rightarrow> bool) option"

text \<open>The card check \<^verbatim>\<open>13 <= len(re.sub(r"\D", "", match)) <= 19\<close>.\<close>

definition card_match_valid :: "string \<Rightarrow> bool" where
  "card_match_valid m = (let digits = filter is_digit m in 13 \<le> length digits \<and> length digits \<le> 19)"

definition PATTERNS :: "PatternConfig list" where
  "PATTERNS = [
     \<lparr>pc_name = ''email'', pc_regex = email_re, pc_mask = (\<lambda>i. ''[EMAIL_'' @ str_nat i @ '']''),
      is_match_valid = None\<rparr>,
     \<lparr>pc_name = ''phone'', pc_regex = phone_re, pc_mask = (\<lambda>i. ''[PHONE_'' @ str_nat i @ '']''),
      is_match_valid = None\<rparr>,
     \<lparr>pc_name = ''card'', pc_regex = card_re, pc_mask = (\<lambda>i. ''[CARD_'' @ str_nat i @ '']''),
      is_match_valid = Some card_match_valid\<rparr>,
     \<lparr>pc_name = ''address'', pc_regex = address_re, pc_mask = (\<lambda>i. ''[ADDR_'' @ str_nat i @ '']''),
      is_match_valid = None\<rparr>]"

record RedactionResult =
  masked :: string
  replacementMap :: "(string \<times> string) list"

text \<open>
  The closure \<^verbatim>\<open>_replacer\<close>: its state is the counter \<^verbatim>\<open>index\<close> of the pattern and the
  \<^verbatim>\<open>replacement_map\<close>, a dict in insertion order.
\<close>

definition replacer :: "PatternConfig \<Rightarrow> nat \<times> (string \<times> string) list \<Rightarrow> string
    \<Rightarrow> string \<times> (nat \<times> (string \<times> string) list)" where
  "replacer pattern st val =
     (case st of (index, replacement_map) \<Rightarrow>
        if (case is_match_valid pattern of Some valid \<Rightarrow> \<not> valid val | None \<Rightarrow> False)
        then (val, (index, replacement_map))
        else let key = pc_mask pattern index
             in (key, (index + 1, AList.update key val replacement_map)))"

definition mask_step :: "string \<times> (string \<times> string) list \<Rightarrow> PatternConfig \<Rightarrow> string \<times> (string \<times> string) list" where
  "mask_step acc pattern =
     (case acc of (masked_text, replacement_map) \<Rightarrow>
        case re_sub (pc_regex pattern) (replacer pattern) masked_text (0, replacement_map) of
          (out, (index, replacement_map')) \<Rightarrow> (out, replacement_map'))"

definition mask :: "string \<Rightarrow> RedactionResult" where
  "mask text =
     (if text = [] then \<lparr>masked = text, replacementMap = []\<rparr>
      else case foldl mask_step (text, []) PATTERNS of
             (masked_text, replacement_map) \<Rightarrow> \<lparr>masked = masked_text, replacementMap = replacement_map\<rparr>)"

definition unmask :: "string \<Rightarrow> (string \<times> string) list \<Rightarrow> string" where
  "unmask text mapping =
     (if text = [] then text
      else foldl (\<lambda>result kv. replace result (fst kv) (snd kv)) text mapping)"

section \<open>Case conversion of labels (\<^verbatim>\<open>utils/strings.py\<close>)\<close>

text \<open>
  \<^verbatim>\<open>WORD_BOUNDARY\<close> is
  \<^verbatim>\<open>[A-Z]{2,}(?=[A-Z][a-z]+[0-9]*|\b)|[A-Z]?[a-z]+[0-9]*|[A-Z]+|[0-9]+\<close>, and the pattern of
  \<^verbatim>\<open>to_title_case\<close> is \<^verbatim>\<open>[_\s]+\<close>.  \<^verbatim>\<open>part[:1].upper()\<close> is \<open>upper_chr\<close> on the first
  character; the three code points below 256 whose upper-case form is not below 256 (181,
  223, 255) are left as they are.
\<close>

definition WORD_BOUNDARY :: regex where
  "WORD_BOUNDARY = alts [
     Seq (rtimes_min (Sym is_ascii_upper) 2)
         (Ahead (Alt (seqs [Sym is_ascii_upper, rplus (Sym is_ascii_lower), rstar (Sym is_digit)]) WordB)),
     seqs [ropt (Sym is_ascii_upper), rplus (Sym is_ascii_lower), rstar (Sym is_digit)],
     rplus (Sym is_ascii_upper),
     rplus (Sym is_digit)]"

definition to_snake_case :: "string \<Rightarrow> string" where
  "to_snake_case val =
     (if val = [] then []
      else let trimmed = strip val; matches = re_findall WORD_BOUNDARY trimmed in
        if matches = []
        then fst (re_sub (rplus (Sym is_space)) (\<lambda>st m. (''_'', st)) (lower trimmed) ())
        else join ''_'' (map lower matches))"

definition title_split_re :: regex where
  "title_split_re = rplus (Sym (\<lambda>c. c = CHR ''_'' \<or> is_space c))"

definition capitalize :: "string \<Rightarrow> string" where
  "capitalize part = (case part of [] \<Rightarrow> [] | c # cs \<Rightarrow> upper_chr c # lower cs)"

definition to_title_case :: "string \<Rightarrow> string" where
  "to_title_case val =
     (if val = [] then []
      else let parts = re_split title_split_re val;
               filtered = filter (\<lambda>part. part \<noteq> []) parts
           in join '' '' (map capitalize filtered))"

definition to_pascal_case :: "string \<Rightarrow> string" where
  "to_pascal_case val = (if val = [] then [] else replace (to_title_case val) '' '' [])"

section \<open>The intent definitions (\<^verbatim>\<open>intent_definitions.py\<close>)\<close>

record IntentDefinition =
  def_id :: string
  def_label :: string
  def_subsystem :: string
  def_entryType :: "string option"
  allowedInEntryChat :: bool

definition definitions :: "IntentDefinition list" where
  "definitions = [
     \<lparr>def_id = ''conversational'', def_label = ''Conversational'', def_subsystem = ''entries'',
      def_entryType = Some ''journal'', allowedInEntryChat = True\<rparr>,
     \<lparr>def_id = ''entry_create'', def_label = ''Entry Create'', def_subsystem = ''entries'',
      def_entryType = Some ''journal'', allowedInEntryChat = False\<rparr>,
     \<lparr>def_id = ''entry_discuss'', def_label = ''Entry Discuss'', def_subsystem = ''entries'',
      def_entryType = Some ''journal'', allowedInEntryChat = True\<rparr>,
     \<lparr>def_id = ''entry_append'', def_label = ''Entry Append'', def_subsystem = ''entries'',
      def_entryType = Some ''journal'', allowedInEntryChat = True\<rparr>,
     \<lparr>def_id = ''command'', def_label = ''Command'', def_subsystem = ''user_config'',
      def_entryType = None, allowedInEntryChat = False\<rparr>,
     \<lparr>def_id = ''search_query'', def_label = ''Search Query'', def_subsystem = ''knowledge'',
      def_entryType = None, allowedInEntryChat = True\<rparr>]"

definition DEFAULT_INTENT :: IntentDefinition where
  "DEFAULT_INTENT = \<lparr>def_id = ''conversational'', def_label = ''Conversational'',
     def_subsystem = ''entries'', def_entryType = Some ''journal'', allowedInEntryChat = True\<rparr>"

text \<open>The dict \<^verbatim>\<open>lookup\<close>, from the lower-cased label to the definition.\<close>

definition lookup :: "string \<Rightarrow> IntentDefinition option" where
  "lookup = map_of (map (\<lambda>d. (lower (def_label d), d)) definitions)"

definition get_intent_definition :: "string \<Rightarrow> IntentDefinition" where
  "get_intent_definition label =
     (let trimmed = strip label;
          normalized = lower trimmed;
          safe_label = (if normalized = [] \<or> normalized = ''label'' then ''journal entry'' else normalized)
      in case lookup safe_label of
           Some d \<Rightarrow> d
         | None \<Rightarrow> DEFAULT_INTENT\<lparr>def_id := ''unknown'',
                      def_label := (if trimmed \<noteq> [] then trimmed else def_label DEFAULT_INTENT)\<rparr>)"

section \<open>The classifier (\<^verbatim>\<open>riflett_intent_classifier.py\<close>)\<close>

text \<open>
  The patterns of the module: \<^verbatim>\<open>COMMAND_PATTERN\<close> is \<^verbatim>\<open>^\s*/\<close>, \<^verbatim>\<open>QUESTION_MARK\<close> is \<^verbatim>\<open>\?\<close>,
  \<^verbatim>\<open>TIME_REGEX\<close> is \<^verbatim>\<open>\b(\d{1,2}(:\d{2})?\s?(am|pm))\b\<close> and \<^verbatim>\<open>PRONOUN_ANCHORS\<close> is
  \<^verbatim>\<open>\b(it|this|that|the goal|the entry|that goal|this entry|that plan|the plan|that project|this project)\b\<close>,
  the last two with \<^verbatim>\<open>re.I\<close>.
\<close>

definition COMMAND_PATTERN :: regex where
  "COMMAND_PATTERN = seqs [Bol, rstar (Sym is_space), chr CHR ''/'']"

definition SEARCH_PHRASES :: "string list" where
  "SEARCH_PHRASES = [''find'', ''show me'', ''search for'', ''when did i'', ''where did i'',
     ''what did i write'', ''look up'', ''list'']"

definition ADDITIVE_PHRASES :: "string list" where
  "ADDITIVE_PHRASES = [''also'', ''update'', ''another'', ''forgot'', ''in addition'', ''plus'',
     ''adding'', ''one more thing'']"

definition SAVE_PHRASES :: "string list" where
  "SAVE_PHRASES = [''save'', ''log'', ''capture'', ''remember'', ''write this down'', ''note that'',
     ''journal'', ''record'']"

definition TEMPORAL_MARKERS :: "string list" where
  "TEMPORAL_MARKERS = [''today'', ''tonight'', ''this morning'', ''this afternoon'', ''this evening'',
     ''yesterday'', ''earlier'', ''just now'', ''right now'', ''tomorrow'', ''monday'', ''tuesday'',
     ''wednesday'', ''thursday'', ''friday'', ''saturday'', ''sunday'']"

definition ACTION_VERBS :: "string list" where
  "ACTION_VERBS = [''finished'', ''completed'', ''did'', ''ran'', ''talked'', ''spoke'', ''met'',
     ''decided'', ''started'', ''launched'', ''sent'', ''emailed'', ''called'', ''worked'', ''wrote'',
     ''built'', ''shipped'']"

definition PRONOUN_ANCHORS :: regex where
  "PRONOUN_ANCHORS = seqs [WordB,
     Grp 1 (alts (map lit_i [''it'', ''this'', ''that'', ''the goal'', ''the entry'', ''that goal'',
       ''this entry'', ''that plan'', ''the plan'', ''that project'', ''this project''])),
     WordB]"

definition QUESTION_MARK :: regex where
  "QUESTION_MARK = chr CHR ''?''"

definition TIME_REGEX :: regex where
  "TIME_REGEX = seqs [WordB,
     Grp 1 (seqs [rtimes (Sym is_digit) 1 2,
                  ropt (Grp 2 (Seq (chr CHR '':'') (rtimes (Sym is_digit) 2 2))),
                  ropt (Sym is_space),
                  Grp 3 (Alt (lit_i ''am'') (lit_i ''pm''))]),
     WordB]"

definition DUPLICATE_THRESHOLD :: real where
  "DUPLICATE_THRESHOLD = 0.85"

definition DUPLICATE_MIN_PREFIX_LENGTH :: nat where
  "DUPLICATE_MIN_PREFIX_LENGTH = 20"

definition contains_phrase :: "string \<Rightarrow> string list \<Rightarrow> bool" where
  "contains_phrase text phrases = list_ex (\<lambda>phrase. contains text phrase) phrases"

definition has_temporal_marker :: "string \<Rightarrow> bool" where
  "has_temporal_marker text = (contains_phrase text TEMPORAL_MARKERS \<or> re_search TIME_REGEX text \<noteq> None)"

definition has_save_language :: "string \<Rightarrow> bool" where
  "has_save_language text = contains_phrase text SAVE_PHRASES"

definition has_additive_language :: "string \<Rightarrow> bool" where
  "has_additive_language text = contains_phrase text ADDITIVE_PHRASES"

definition has_action_language :: "string \<Rightarrow> bool" where
  "has_action_language text = list_ex (\<lambda>verb. contains text verb) ACTION_VERBS"

definition is_search_query :: "string \<Rightarrow> bool" where
  "is_search_query text = contains_phrase text SEARCH_PHRASES"

definition base_candidate :: "string \<Rightarrow> real \<Rightarrow> string \<times> real" where
  "base_candidate label confidence = (label, confidence)"

definition pick_duplicate :: "'a MemoryRecord_scheme list \<Rightarrow> 'a MemoryRecord_scheme option" where
  "pick_duplicate records = List.find (\<lambda>r. score r \<ge> DUPLICATE_THRESHOLD) records"

definition map_kind_to_entry_type :: "string \<Rightarrow> string option" where
  "map_kind_to_entry_type kind =
     (if kind = [] then None
      else let normalized = lower kind in
        if contains normalized ''goal'' then Some ''goal''
        else if contains normalized ''event'' \<or> contains normalized ''schedule'' then Some ''schedule''
        else if contains normalized ''entry'' \<or> contains normalized ''journal'' then Some ''journal''
        else None)"

record duplicate_meta =
  dup_id :: string
  dup_score :: real
  dup_text :: string
  dup_kind :: string

text \<open>
  The dict returned by the classifier.  A key that a branch leaves out reads as \<open>None\<close>, which
  is what \<^verbatim>\<open>classification.get\<close> gives the pipeline for it.
\<close>

record classification =
  cl_label :: string
  cl_confidence :: real
  reasons :: "string list"
  targetEntryId :: "string option"
  targetEntryType :: "string option"
  duplicateMatch :: "duplicate_meta option"
  topCandidates :: "(string \<times> real) list"

definition word_count_of :: "string \<Rightarrow> nat" where
  "word_count_of trimmed = length (filter (\<lambda>w. w \<noteq> []) (re_split (rplus (Sym is_space)) trimmed))"

definition create_confidence_of :: "bool \<Rightarrow> bool \<Rightarrow> nat \<Rightarrow> real" where
  "create_confidence_of has_save has_temporal word_count =
     min (0.86 + (if has_save then 0.08 else 0) + (if has_temporal then 0.03 else 0)
            + (if word_count > 60 then 0.03 else 0)) 0.97"

text \<open>
  \<^verbatim>\<open>classify_riflett_intent\<close> reads the context window through \<^verbatim>\<open>window_snapshot()\<close> and
  \<^verbatim>\<open>recent_messages()\<close>; the window is an argument here.  The branches are in the order of
  the source.
\<close>

definition classify_riflett_intent :: "string \<Rightarrow> 'a MemoryRecord_scheme list \<Rightarrow> context_window \<Rightarrow> classification" where
  "classify_riflett_intent text context_records cw =
  (let trimmed = strip text;
       lower_text = lower trimmed;
       context_snapshot = snapshot cw;
       recent_msgs = recent cw
   in
   if trimmed = [] then
     \<lparr>cl_label = ''conversational'', cl_confidence = 0.6,
      reasons = [''Empty message defaults to conversational''],
      targetEntryId = None, targetEntryType = None, duplicateMatch = None,
      topCandidates = [base_candidate ''conversational'' 0.6]\<rparr>
   else if re_search COMMAND_PATTERN trimmed \<noteq> None then
     \<lparr>cl_label = ''command'', cl_confidence = 0.99,
      reasons = [''Slash-prefixed command detected''],
      targetEntryId = None, targetEntryType = None, duplicateMatch = None,
      topCandidates = [base_candidate ''command'' 0.99]\<rparr>
   else if is_search_query lower_text then
     (let confidence = (if length lower_text > 24 then 0.94 else 0.9) in
      \<lparr>cl_label = ''search_query'', cl_confidence = confidence,
       reasons = [''Search verb detected''],
       targetEntryId = None, targetEntryType = None, duplicateMatch = None,
       topCandidates = [base_candidate ''search_query'' confidence,
                        base_candidate ''conversational'' 0.7]\<rparr>)
   else
   (let duplicate = pick_duplicate context_records;
        duplicate_meta = map_option (\<lambda>d. \<lparr>dup_id = row_id d, dup_score = score d, dup_text = row_text d,
                                          dup_kind = row_kind d\<rparr>) duplicate;
        has_additive = has_additive_language lower_text;
        in_window = (case context_snapshot of Some sn \<Rightarrow> snap_isActive sn | None \<Rightarrow> False);
        has_pronoun_anchor = (re_search PRONOUN_ANCHORS trimmed \<noteq> None)
    in
    if duplicate_meta \<noteq> None \<and> has_additive then
      \<lparr>cl_label = ''entry_append'', cl_confidence = 0.91,
       reasons = [''High-similarity memory match with additive language''],
       targetEntryId = map_option dup_id duplicate_meta,
       targetEntryType = Option.bind duplicate_meta (\<lambda>d. map_kind_to_entry_type (dup_kind d)),
       duplicateMatch = duplicate_meta,
       topCandidates = [base_candidate ''entry_append'' 0.91, base_candidate ''entry_discuss'' 0.8,
                        base_candidate ''entry_create'' 0.6]\<rparr>
    else if in_window \<and> has_pronoun_anchor then
      \<lparr>cl_label = ''entry_discuss'', cl_confidence = 0.96,
       reasons = [''Within entry context window with pronoun reference''],
       targetEntryId = map_option snap_entryId context_snapshot,
       targetEntryType = map_option snap_entryType context_snapshot,
       duplicateMatch = duplicate_meta,
       topCandidates = [base_candidate ''entry_discuss'' 0.96,
                        base_candidate ''entry_append'' (if has_additive then 0.82 else 0.7),
                        base_candidate ''entry_create'' 0.6]\<rparr>
    else
    (let reasons0 = (if duplicate_meta \<noteq> None \<and> \<not> has_additive
                     then [''High-similarity memory match without clear additive cue''] else []);
         has_save = has_save_language lower_text;
         has_temporal = has_temporal_marker lower_text;
         has_action = has_action_language lower_text;
         is_question = (re_search QUESTION_MARK trimmed \<noteq> None);
         word_count = word_count_of trimmed
     in
     if \<not> is_question \<and> (has_save \<or> (has_temporal \<and> has_action) \<or> word_count > 25) then
       (let create_confidence = create_confidence_of has_save has_temporal word_count in
        \<lparr>cl_label = ''entry_create'', cl_confidence = create_confidence,
         reasons = reasons0 @ [''Declarative content suitable for structured capture'']
           @ (if has_save then [''Explicit save/log intent detected''] else [])
           @ (if has_temporal then [''Temporal marker detected''] else [])
           @ (if has_action then [''Concrete action verb detected''] else []),
         targetEntryId = None, targetEntryType = None,
         duplicateMatch = duplicate_meta,
         topCandidates = [base_candidate ''entry_create'' create_confidence,
                          base_candidate ''entry_append'' (if duplicate_meta \<noteq> None then 0.78 else 0.62),
                          base_candidate ''conversational'' 0.6]\<rparr>)
     else if has_additive \<and> duplicate_meta \<noteq> None then
       \<lparr>cl_label = ''entry_append'', cl_confidence = 0.88,
        reasons = reasons0 @ [''Additive phrasing referencing prior context''],
        targetEntryId = map_option dup_id duplicate_meta,
        targetEntryType = Option.bind duplicate_meta (\<lambda>d. map_kind_to_entry_type (dup_kind d)),
        duplicateMatch = duplicate_meta,
        topCandidates = [base_candidate ''entry_append'' 0.88, base_candidate ''entry_discuss'' 0.72,
                         base_candidate ''conversational'' 0.65]\<rparr>
     else if in_window \<and> \<not> is_question then
       \<lparr>cl_label = ''entry_discuss'', cl_confidence = 0.78,
        reasons = reasons0 @ [''Context window active; defaulting follow-up to discuss''],
        targetEntryId = map_option snap_entryId context_snapshot,
        targetEntryType = map_option snap_entryType context_snapshot,
        duplicateMatch = duplicate_meta,
        topCandidates = [base_candidate ''entry_discuss'' 0.78, base_candidate ''entry_create'' 0.6,
                         base_candidate ''conversational'' 0.58]\<rparr>
     else if (case duplicate_meta of
                Some d \<Rightarrow> length (dup_text d) \<ge> DUPLICATE_MIN_PREFIX_LENGTH
                  \<and> list_ex (\<lambda>message. contains (lower (rm_text message))
                                 (lower (take DUPLICATE_MIN_PREFIX_LENGTH (dup_text d)))) recent_msgs
              | None \<Rightarrow> False) then
       \<lparr>cl_label = ''entry_append'', cl_confidence = 0.8,
        reasons = reasons0 @ [''Recent message references similar content; favour append''],
        targetEntryId = map_option dup_id duplicate_meta,
        targetEntryType = Option.bind duplicate_meta (\<lambda>d. map_kind_to_entry_type (dup_kind d)),
        duplicateMatch = duplicate_meta,
        topCandidates = [base_candidate ''entry_append'' 0.8, base_candidate ''entry_discuss'' 0.7,
                         base_candidate ''conversational'' 0.65]\<rparr>
     else
       (let conversational_confidence = (if is_question then 0.9 else 0.82) in
        \<lparr>cl_label = ''conversational'', cl_confidence = conversational_confidence,
         reasons = reasons0 @ [if is_question then ''Question format leaning conversational''
                               else ''Defaulting to reflective conversational mode''],
         targetEntryId = (case context_snapshot of
                            Some sn \<Rightarrow> if snap_isActive sn then Some (snap_entryId sn) else None
                          | None \<Rightarrow> None),
         targetEntryType = map_option snap_entryType context_snapshot,
         duplicateMatch = duplicate_meta,
         topCandidates = [base_candidate ''conversational'' conversational_confidence,
                          base_candidate ''search_query'' (if is_question then 0.58 else 0.4),
                          base_candidate ''entry_create'' 0.35]\<rparr>))))"

definition to_native_label :: "string \<Rightarrow> string" where
  "to_native_label label = to_title_case (replace label ''_'' '' '')"

section \<open>Routing (\<^verbatim>\<open>intent_routing.py\<close> and \<^verbatim>\<open>types.py\<close>)\<close>

text \<open>
  Confidences are Python floats, modelled as real numbers.  The native intent is the dict that
  the pipeline builds from the classification; its keys are read with \<^verbatim>\<open>get\<close>, so each is
  optional.
\<close>

definition ROUTE_AT_THRESHOLD :: real where
  "ROUTE_AT_THRESHOLD = 0.75"

definition CLARIFY_LOWER_THRESHOLD :: real where
  "CLARIFY_LOWER_THRESHOLD = 0.45"

definition SECONDARY_INTENT_THRESHOLD :: real where
  "SECONDARY_INTENT_THRESHOLD = 0.6"

record RoutedIntent =
  label :: string
  rawLabel :: string
  confidence :: real
  secondBest :: "string option"
  secondConfidence :: "real option"
  slots :: "string \<rightharpoonup> string"
  topK :: "(string \<times> real) list"
  modelVersion :: "string option"
  matchedTokens :: "(string \<times> string list) list option"
  tokens :: "string list option"

datatype decision_kind = commit | clarify | fallback

record RouteDecision =
  kind :: decision_kind
  primary :: "string option"
  maybeSecondary :: "string option"
  question :: "string option"

record native_intent =
  ni_label :: "string option"
  ni_confidence :: "real option"
  ni_top3 :: "(string \<times> real) list option"
  ni_topK :: "(string \<times> real) list option"
  ni_modelVersion :: "string option"
  ni_matchedTokens :: "(string \<times> string list) list option"
  ni_tokens :: "string list option"

definition clamp :: "real \<Rightarrow> real" where
  "clamp v = (if v < 0 then 0 else if v > 1 then 1 else v)"

definition normalize_step :: "string list \<times> (string \<times> real) list \<Rightarrow> string \<times> real
    \<Rightarrow> string list \<times> (string \<times> real) list" where
  "normalize_step acc item =
     (case acc of (seen, normalized) \<Rightarrow>
        if fst item \<in> set seen then (seen, normalized)
        else (fst item # seen, normalized @ [(fst item, clamp (snd item))]))"

definition normalize_top_k :: "(string \<times> real) list option \<Rightarrow> (string \<times> real) list" where
  "normalize_top_k native_top_k =
     (case native_top_k of
        None \<Rightarrow> []
      | Some items \<Rightarrow> sort_key (\<lambda>entry. - snd entry) (snd (foldl normalize_step ([], []) items)))"

definition tokens_for :: "(string \<times> string list) list \<Rightarrow> string \<Rightarrow> string \<Rightarrow> string list" where
  "tokens_for matched_tokens_lookup def_lbl cand_lbl =
     (case map_of matched_tokens_lookup def_lbl of
        Some (t # ts) \<Rightarrow> t # ts
      | _ \<Rightarrow> (case map_of matched_tokens_lookup cand_lbl of Some (t # ts) \<Rightarrow> t # ts | _ \<Rightarrow> []))"

definition build_routed_intent :: "native_intent \<Rightarrow> (string \<rightharpoonup> string) option \<Rightarrow> RoutedIntent" where
  "build_routed_intent native slots_arg =
     (let top_k = normalize_top_k (case ni_topK native of Some (x # xs) \<Rightarrow> Some (x # xs) | _ \<Rightarrow> ni_top3 native);
          primary = (case top_k of
                       c # _ \<Rightarrow> c
                     | [] \<Rightarrow> (case ni_label native of Some l \<Rightarrow> l | None \<Rightarrow> [],
                              clamp (case ni_confidence native of Some c \<Rightarrow> c | None \<Rightarrow> 0)));
          second = List.find (\<lambda>candidate. fst candidate \<noteq> fst primary) top_k;
          primary_definition = get_intent_definition (fst primary);
          second_definition = map_option (\<lambda>c. get_intent_definition (fst c)) second;
          matched_tokens_lookup = (case ni_matchedTokens native of Some items \<Rightarrow> rev items | None \<Rightarrow> []);
          resolved_top_k = (if top_k \<noteq> [] then top_k else [primary]);
          matched_tokens = map (\<lambda>candidate.
              let definition = get_intent_definition (fst candidate)
              in (to_pascal_case (def_label definition),
                  tokens_for matched_tokens_lookup (def_label definition) (fst candidate))) resolved_top_k
      in \<lparr>label = to_pascal_case (def_label primary_definition),
          rawLabel = def_label primary_definition,
          confidence = clamp (snd primary),
          secondBest = map_option (\<lambda>d. to_pascal_case (def_label d)) second_definition,
          secondConfidence = map_option (\<lambda>c. clamp (snd c)) second,
          slots = (case slots_arg of Some sl \<Rightarrow> sl | None \<Rightarrow> Map.empty),
          topK = resolved_top_k,
          modelVersion = ni_modelVersion native,
          matchedTokens = Some matched_tokens,
          tokens = ni_tokens native\<rparr>)"

definition route_intent :: "RoutedIntent \<Rightarrow> RouteDecision" where
  "route_intent intent =
     (if confidence intent \<ge> ROUTE_AT_THRESHOLD then
        (let maybe_secondary =
               (if (case secondConfidence intent of Some c \<Rightarrow> c | None \<Rightarrow> 0) \<ge> SECONDARY_INTENT_THRESHOLD
                then secondBest intent else None)
         in \<lparr>kind = commit, primary = Some (label intent), maybeSecondary = maybe_secondary,
             question = None\<rparr>)
      else if confidence intent \<ge> CLARIFY_LOWER_THRESHOLD then
        (let human_label = replace (to_snake_case (label intent)) ''_'' '' ''
         in \<lparr>kind = clarify, primary = None, maybeSecondary = None,
             question = Some (''Did you want to '' @ human_label @ ''?'')\<rparr>)
      else \<lparr>kind = fallback, primary = None, maybeSecondary = None, question = None\<rparr>)"

definition should_consider_secondary :: "RoutedIntent \<Rightarrow> bool" where
  "should_consider_secondary intent =
     ((case secondConfidence intent of Some c \<Rightarrow> c | None \<Rightarrow> 0) \<ge> SECONDARY_INTENT_THRESHOLD)"

section \<open>Dates and times\<close>

text \<open>
  The slot filler computes with \<^verbatim>\<open>datetime\<close> values of the Python standard library.  A
  datetime is modelled by the proleptic Gregorian ordinal of its day (\<^verbatim>\<open>toordinal()\<close>: day 1
  is 0001-01-01, a Monday) and its time of day; all datetimes are aware and in UTC, as
  \<^verbatim>\<open>datetime.now(timezone.utc)\<close> is, so \<^verbatim>\<open>astimezone(timezone.utc)\<close> changes nothing.  The
  library raises \<^verbatim>\<open>OverflowError\<close> when a sum leaves the years 1 to 9999 and \<^verbatim>\<open>ValueError\<close>
  for a date that does not exist; both are results here.  The conversions between ordinals
  and year, month, day follow the library (\<^verbatim>\<open>_ymd2ord\<close>, \<^verbatim>\<open>_ord2ymd\<close>).
\<close>

datatype error = ValueError | OverflowError

definition bind_err :: "error + 'a \<Rightarrow> ('a \<Rightarrow> error + 'b) \<Rightarrow> error + 'b" where
  "bind_err m f = (case m of Inl e \<Rightarrow> Inl e | Inr x \<Rightarrow> f x)"

record datetime =
  ordinal :: int
  hour :: nat
  minute :: nat
  second :: nat
  microsecond :: nat

definition MAXORDINAL :: int where
  "MAXORDINAL = 3652059"

definition weekday :: "datetime \<Rightarrow> int" where
  "weekday d = (ordinal d + 6) mod 7"

definition add_days :: "datetime \<Rightarrow> int \<Rightarrow> error + datetime" where
  "add_days d n =
     (if 1 \<le> ordinal d + n \<and> ordinal d + n \<le> MAXORDINAL then Inr (d\<lparr>ordinal := ordinal d + n\<rparr>)
      else Inl OverflowError)"

definition add_hours :: "datetime \<Rightarrow> int \<Rightarrow> error + datetime" where
  "add_hours d n =
     (let total = int (hour d) + n
      in bind_err (add_days d (total div 24)) (\<lambda>d'. Inr (d'\<lparr>hour := nat (total mod 24)\<rparr>)))"

definition dt_less :: "datetime \<Rightarrow> datetime \<Rightarrow> bool" where
  "dt_less a b =
     (ordinal a < ordinal b \<or> (ordinal a = ordinal b \<and>
       (hour a < hour b \<or> (hour a = hour b \<and>
         (minute a < minute b \<or> (minute a = minute b \<and>
           (second a < second b \<or> (second a = second b \<and> microsecond a < microsecond b))))))))"

definition replace_time :: "datetime \<Rightarrow> nat \<Rightarrow> nat \<Rightarrow> nat \<Rightarrow> nat \<Rightarrow> error + datetime" where
  "replace_time d h m sec us =
     (if h \<le> 23 \<and> m \<le> 59 \<and> sec \<le> 59 \<and> us \<le> 999999
      then Inr (d\<lparr>hour := h, minute := m, second := sec, microsecond := us\<rparr>)
      else Inl ValueError)"

definition is_leap :: "int \<Rightarrow> bool" where
  "is_leap y = (y mod 4 = 0 \<and> (y mod 100 \<noteq> 0 \<or> y mod 400 = 0))"

definition DAYS_IN_MONTH :: "int list" where
  "DAYS_IN_MONTH = [31, 28, 31, 30, 31, 30, 31, 31, 30, 31, 30, 31]"

definition DAYS_BEFORE_MONTH :: "int list" where
  "DAYS_BEFORE_MONTH = [0, 31, 59, 90, 120, 151, 181, 212, 243, 273, 304, 334]"

definition days_in_month :: "int \<Rightarrow> nat \<Rightarrow> int" where
  "days_in_month y m = (if m = 2 \<and> is_leap y then 29 else DAYS_IN_MONTH ! (m - 1))"

definition days_before_year :: "int \<Rightarrow> int" where
  "days_before_year year = (let y = year - 1 in y * 365 + y div 4 - y div 100 + y div 400)"

definition days_before_month :: "int \<Rightarrow> nat \<Rightarrow> int" where
  "days_before_month y m = DAYS_BEFORE_MONTH ! (m - 1) + (if m > 2 \<and> is_leap y then 1 else 0)"

text \<open>\<^verbatim>\<open>datetime(year, month, day, tzinfo=timezone.utc)\<close>.\<close>

definition make_date :: "int \<Rightarrow> nat \<Rightarrow> nat \<Rightarrow> error + datetime" where
  "make_date y m d =
     (if 1 \<le> y \<and> y \<le> 9999 \<and> 1 \<le> m \<and> m \<le> 12 \<and> 1 \<le> d \<and> int d \<le> days_in_month y m
      then Inr \<lparr>ordinal = days_before_year y + days_before_month y m + int d,
               hour = 0, minute = 0, second = 0, microsecond = 0\<rparr>
      else Inl ValueError)"

definition ord2ymd :: "int \<Rightarrow> int \<times> nat \<times> nat" where
  "ord2ymd n0 =
     (let n = n0 - 1;
          n400 = n div 146097; n = n mod 146097;
          n100 = n div 36524; n = n mod 36524;
          n4 = n div 1461; n = n mod 1461;
          n1 = n div 365; n = n mod 365;
          year = n400 * 400 + 1 + n100 * 100 + n4 * 4 + n1
      in if n1 = 4 \<or> n100 = 4 then (year - 1, 12, 31)
         else let leapyear = (n1 = 3 \<and> (n4 \<noteq> 24 \<or> n100 = 3));
                  month = nat ((n + 50) div 32);
                  preceding = DAYS_BEFORE_MONTH ! (month - 1) + (if month > 2 \<and> leapyear then 1 else 0)
              in if preceding > n
                 then let month' = month - 1;
                          preceding' = preceding - (DAYS_IN_MONTH ! (month' - 1)
                                          + (if month' = 2 \<and> leapyear then 1 else 0))
                      in (year, month', nat (n - preceding' + 1))
                 else (year, month, nat (n - preceding + 1)))"

definition year_of :: "datetime \<Rightarrow> int" where
  "year_of d = fst (ord2ymd (ordinal d))"

text \<open>Zero-padded decimal, as \<^verbatim>\<open>"%04d"\<close> and \<^verbatim>\<open>"%02d"\<close> print a natural number.\<close>

definition zpad :: "nat \<Rightarrow> nat \<Rightarrow> string" where
  "zpad width n = (let s = str_nat n in replicate (width - length s) CHR ''0'' @ s)"

definition isoformat :: "datetime \<Rightarrow> string" where
  "isoformat d =
     (case ord2ymd (ordinal d) of (y, m, dd) \<Rightarrow>
        zpad 4 (nat y) @ ''-'' @ zpad 2 m @ ''-'' @ zpad 2 dd @ ''T''
        @ zpad 2 (hour d) @ '':'' @ zpad 2 (minute d) @ '':'' @ zpad 2 (second d)
        @ (if microsecond d \<noteq> 0 then ''.'' @ zpad 6 (microsecond d) else [])
        @ ''+00:00'')"

section \<open>The slot filler (\<^verbatim>\<open>slot_filler.py\<close>)\<close>

text \<open>
  The patterns, all with \<^verbatim>\<open>re.I\<close> but the two numeric date patterns:
  \<^item> weekday \<^verbatim>\<open>\b(next|this)?\s*(sunday|monday|tuesday|wednesday|thursday|friday|saturday)\b\<close>
  \<^item> \<^verbatim>\<open>\btoday\b\<close>, \<^verbatim>\<open>\btomorrow\b\<close>, \<^verbatim>\<open>\bday after tomorrow\b\<close>, \<^verbatim>\<open>\btonight\b\<close>
  \<^item> ISO date \<^verbatim>\<open>\b(\d{4})-(\d{2})-(\d{2})\b\<close>, slash date \<^verbatim>\<open>\b(\d{1,2})\/(\d{1,2})(?:\/(\d{2,4}))?\b\<close>
  \<^item> month date \<^verbatim>\<open>\b(jan(?:uary)?|feb(?:ruary)?|mar(?:ch)?|apr(?:il)?|may|jun(?:e)?|jul(?:y)?|aug(?:ust)?|sep(?:tember)?|oct(?:ober)?|nov(?:ember)?|dec(?:ember)?)\s+(\d{1,2})(?:,?\s*(\d{4}))?\b\<close>
  \<^item> time \<^verbatim>\<open>\b(?:at|@)?\s*(\d{1,2})(?::(\d{2}))?\s*(am|pm)?\b\<close>
  \<^item> duration \<^verbatim>\<open>for\s+(\d{1,2})\s*(minutes?|hours?)\<close>
  \<^item> titles \<^verbatim>\<open>(?:goal|aim|plan)\s+(?:to|is to)?\s*(.+)$\<close> and \<^verbatim>\<open>(?:about|on)\s+([^.!?]+)\<close>
\<close>

definition WEEKDAY_ORDER :: "(string \<times> int) list" where
  "WEEKDAY_ORDER = [(''sunday'', 0), (''monday'', 1), (''tuesday'', 2), (''wednesday'', 3),
     (''thursday'', 4), (''friday'', 5), (''saturday'', 6)]"

definition MONTHS :: "string list" where
  "MONTHS = [''january'', ''february'', ''march'', ''april'', ''may'', ''june'', ''july'', ''august'',
     ''september'', ''october'', ''november'', ''december'']"

record SlotFillOptions =
  sf_userTimeZone :: "string option"
  sf_now :: "datetime option"

definition clamp_value :: "nat \<Rightarrow> nat \<Rightarrow> nat" where
  "clamp_value v max_value = (if v > max_value then max_value else v)"

definition minutes_to_iso :: "datetime \<Rightarrow> string" where
  "minutes_to_iso date = replace (isoformat date) ''+00:00'' ''Z''"

text \<open>
  \<^verbatim>\<open>_resolve_now\<close>: the datetime given in the options, or else the clock
  \<^verbatim>\<open>datetime.now(timezone.utc)\<close>, which is an argument.
\<close>

definition resolve_now :: "datetime option \<Rightarrow> datetime \<Rightarrow> datetime" where
  "resolve_now now clock = (case now of Some n \<Rightarrow> n | None \<Rightarrow> clock)"

definition weekday_re :: regex where
  "weekday_re = seqs [WordB, ropt (Grp 1 (Alt (lit_i ''next'') (lit_i ''this''))), rstar (Sym is_space),
     Grp 2 (alts (map lit_i [''sunday'', ''monday'', ''tuesday'', ''wednesday'', ''thursday'',
                              ''friday'', ''saturday''])),
     WordB]"

definition find_weekday :: "string \<Rightarrow> datetime \<Rightarrow> error + datetime option" where
  "find_weekday text now =
     (case re_search weekday_re text of
        None \<Rightarrow> Inr None
      | Some m \<Rightarrow>
          (let hint = group m 1;
               weekday_raw = group m 2
           in case map_of WEEKDAY_ORDER (lower (case weekday_raw of Some w \<Rightarrow> w | None \<Rightarrow> [])) of
                None \<Rightarrow> Inr None
              | Some weekday_idx \<Rightarrow>
                  let today_idx = weekday now;
                      days_ahead0 = (weekday_idx - today_idx + 7) mod 7;
                      days_ahead =
                        (if days_ahead0 = 0 \<and> map_option lower hint = Some ''next'' then 7
                         else if days_ahead0 = 0 \<and> map_option lower hint = Some ''this'' then 0
                         else if days_ahead0 = 0 \<and> (hint = None \<or> hint = Some []) then 7
                         else days_ahead0)
                  in bind_err (add_days now days_ahead) (\<lambda>target. Inr (Some target))))"

definition today_re :: regex where
  "today_re = seqs [WordB, lit_i ''today'', WordB]"

definition tomorrow_re :: regex where
  "tomorrow_re = seqs [WordB, lit_i ''tomorrow'', WordB]"

definition day_after_tomorrow_re :: regex where
  "day_after_tomorrow_re = seqs [WordB, lit_i ''day after tomorrow'', WordB]"

definition tonight_re :: regex where
  "tonight_re = seqs [WordB, lit_i ''tonight'', WordB]"

definition find_relative_day :: "string \<Rightarrow> datetime \<Rightarrow> error + datetime option" where
  "find_relative_day text now =
     (if re_search today_re text \<noteq> None then Inr (Some now)
      else if re_search tomorrow_re text \<noteq> None
        then bind_err (add_days now 1) (\<lambda>d. Inr (Some d))
      else if re_search day_after_tomorrow_re text \<noteq> None
        then bind_err (add_days now 2) (\<lambda>d. Inr (Some d))
      else Inr None)"

definition iso_date_re :: regex where
  "iso_date_re = seqs [WordB, Grp 1 (rtimes (Sym is_digit) 4 4), chr CHR ''-'',
     Grp 2 (rtimes (Sym is_digit) 2 2), chr CHR ''-'', Grp 3 (rtimes (Sym is_digit) 2 2), WordB]"

definition slash_date_re :: regex where
  "slash_date_re = seqs [WordB, Grp 1 (rtimes (Sym is_digit) 1 2), chr CHR ''/'',
     Grp 2 (rtimes (Sym is_digit) 1 2),
     ropt (Seq (chr CHR ''/'') (Grp 3 (rtimes (Sym is_digit) 2 4))), WordB]"

definition month_date_re :: regex where
  "month_date_re = seqs [WordB,
     Grp 1 (alts [Seq (lit_i ''jan'') (ropt (lit_i ''uary'')), Seq (lit_i ''feb'') (ropt (lit_i ''ruary'')),
                  Seq (lit_i ''mar'') (ropt (lit_i ''ch'')), Seq (lit_i ''apr'') (ropt (lit_i ''il'')),
                  lit_i ''may'', Seq (lit_i ''jun'') (ropt (lit_i ''e'')),
                  Seq (lit_i ''jul'') (ropt (lit_i ''y'')), Seq (lit_i ''aug'') (ropt (lit_i ''ust'')),
                  Seq (lit_i ''sep'') (ropt (lit_i ''tember'')), Seq (lit_i ''oct'') (ropt (lit_i ''ober'')),
                  Seq (lit_i ''nov'') (ropt (lit_i ''ember'')), Seq (lit_i ''dec'') (ropt (lit_i ''ember''))]),
     rplus (Sym is_space),
     Grp 2 (rtimes (Sym is_digit) 1 2),
     ropt (seqs [ropt (chr CHR '',''), rstar (Sym is_space), Grp 3 (rtimes (Sym is_digit) 4 4)]),
     WordB]"

text \<open>\<^verbatim>\<open>MONTHS.index(name)\<close>, which raises \<^verbatim>\<open>ValueError\<close> for a name that is not in the list.\<close>

fun index_of :: "string list \<Rightarrow> string \<Rightarrow> error + nat" where
  "index_of [] x = Inl ValueError"
| "index_of (y # ys) x = (if x = y then Inr 0 else bind_err (index_of ys x) (\<lambda>i. Inr (Suc i)))"

definition find_explicit_date :: "string \<Rightarrow> datetime \<Rightarrow> error + datetime option" where
  "find_explicit_date text now =
     (case re_search iso_date_re text of
        Some m \<Rightarrow>
          bind_err (make_date (int (int_of_digits (grp m 1))) (int_of_digits (grp m 2))
                      (int_of_digits (grp m 3))) (\<lambda>d. Inr (Some d))
      | None \<Rightarrow>
     (case re_search slash_date_re text of
        Some m \<Rightarrow>
          (let year_val = (case group m 3 of
                             Some year_raw \<Rightarrow>
                               if length year_raw = 2 then int (int_of_digits (''20'' @ year_raw))
                               else int (int_of_digits year_raw)
                           | None \<Rightarrow> year_of now)
           in bind_err (make_date year_val (int_of_digits (grp m 1)) (int_of_digits (grp m 2)))
                (\<lambda>d. Inr (Some d)))
      | None \<Rightarrow>
     (case re_search month_date_re text of
        Some m \<Rightarrow>
          bind_err (index_of MONTHS (lower (grp m 1))) (\<lambda>month_idx.
            let year_val = (case group m 3 of Some year_raw \<Rightarrow> int (int_of_digits year_raw)
                            | None \<Rightarrow> year_of now)
            in bind_err (make_date year_val (month_idx + 1) (int_of_digits (grp m 2)))
                 (\<lambda>d. Inr (Some d)))
      | None \<Rightarrow> Inr None)))"

definition apply_time_re :: regex where
  "apply_time_re = seqs [WordB, ropt (Alt (lit_i ''at'') (chr CHR ''@'')), rstar (Sym is_space),
     Grp 1 (rtimes (Sym is_digit) 1 2),
     ropt (Seq (chr CHR '':'') (Grp 2 (rtimes (Sym is_digit) 2 2))),
     rstar (Sym is_space),
     ropt (Grp 3 (Alt (lit_i ''am'') (lit_i ''pm''))),
     WordB]"

text \<open>
  \<^verbatim>\<open>_apply_time\<close> returns an empty dict or a dict with the keys \<^verbatim>\<open>date\<close> and
  \<^verbatim>\<open>timeApplied\<close>; the result here is the date, present exactly when \<^verbatim>\<open>timeApplied\<close> is.
\<close>

definition apply_time :: "string \<Rightarrow> datetime option \<Rightarrow> datetime \<Rightarrow> error + datetime option" where
  "apply_time text seed now =
     (case re_search apply_time_re text of
        None \<Rightarrow> Inr None
      | Some m \<Rightarrow>
          (let hours0 = clamp_value (int_of_digits (grp m 1)) 23;
               minutes = clamp_value (case group m 2 of Some minute_raw \<Rightarrow> int_of_digits minute_raw | None \<Rightarrow> 0) 59;
               hours = (case group m 3 of
                          None \<Rightarrow> hours0
                        | Some meridiem_raw \<Rightarrow>
                            let meridiem = lower meridiem_raw;
                                h1 = (if meridiem = ''pm'' \<and> hours0 < 12 then hours0 + 12 else hours0)
                            in if meridiem = ''am'' \<and> h1 = 12 then 0 else h1);
               base = (case seed of Some sd \<Rightarrow> sd | None \<Rightarrow> now)
           in bind_err (replace_time base hours minutes 0 0) (\<lambda>b. Inr (Some b))))"

definition ensure_past_is_future :: "datetime \<Rightarrow> datetime \<Rightarrow> error + datetime" where
  "ensure_past_is_future date now = (if dt_less date now then add_days date 7 else Inr date)"

definition duration_re :: regex where
  "duration_re = seqs [lit_i ''for'', rplus (Sym is_space), Grp 1 (rtimes (Sym is_digit) 1 2),
     rstar (Sym is_space),
     Grp 2 (Alt (Seq (lit_i ''minute'') (ropt (chr_i CHR ''s''))) (Seq (lit_i ''hour'') (ropt (chr_i CHR ''s''))))]"

definition goal_title_re :: regex where
  "goal_title_re = seqs [alts [lit_i ''goal'', lit_i ''aim'', lit_i ''plan''], rplus (Sym is_space),
     ropt (Alt (lit_i ''to'') (lit_i ''is to'')), rstar (Sym is_space),
     Grp 1 (rplus (Sym (\<lambda>c. c \<noteq> CHR 0x0A))), Eol]"

definition journal_title_re :: regex where
  "journal_title_re = seqs [Alt (lit_i ''about'') (lit_i ''on''), rplus (Sym is_space),
     Grp 1 (rplus (Sym (\<lambda>c. c \<notin> set ''.!?'')))]"

text \<open>
  The body of \<^verbatim>\<open>_derive_slots\<close> is cut in four: \<open>date_slots\<close> is the block under
  \<^verbatim>\<open>if candidate_date:\<close> after \<^verbatim>\<open>adjusted\<close> is known, \<open>duration_slot\<close> the block of the
  duration pattern, \<open>title_slots\<close> the two title blocks, and \<open>derive_slots\<close> runs them in the
  order of the source.  The slots are a dict from strings to strings, a map here.
\<close>

definition date_slots :: "string \<Rightarrow> bool \<Rightarrow> datetime \<Rightarrow> (string \<rightharpoonup> string) \<Rightarrow> error + (string \<rightharpoonup> string)" where
  "date_slots normalized_label time_applied adjusted result_slots =
     (let iso = minutes_to_iso adjusted in
      if contains normalized_label ''schedule'' then
        (if \<not> time_applied
         then bind_err (add_hours adjusted 1)
                (\<lambda>end. Inr (result_slots(''start'' \<mapsto> iso, ''end'' \<mapsto> minutes_to_iso end)))
         else Inr (result_slots(''start'' \<mapsto> iso)))
      else if contains normalized_label ''goal'' then
        (let date_part = takeWhile (\<lambda>c. c \<noteq> CHR ''T'') iso
         in Inr (if date_part \<noteq> [] then result_slots(''due'' \<mapsto> date_part) else result_slots))
      else if contains normalized_label ''journal'' then Inr (result_slots(''ts'' \<mapsto> iso))
      else Inr result_slots)"

definition duration_slot :: "string \<Rightarrow> (string \<rightharpoonup> string) \<Rightarrow> (string \<rightharpoonup> string)" where
  "duration_slot text result_slots =
     (case re_search duration_re text of
        None \<Rightarrow> result_slots
      | Some m \<Rightarrow>
          let qty = int_of_digits (grp m 1);
              unit = (if startswith (lower (grp m 2)) ''hour'' then 60 else 1)
          in result_slots(''duration_minutes'' \<mapsto> str_nat (qty * unit)))"

definition title_slots :: "string \<Rightarrow> string \<Rightarrow> (string \<rightharpoonup> string) \<Rightarrow> (string \<rightharpoonup> string)" where
  "title_slots text normalized_label result_slots =
     (let s1 = (if result_slots ''title'' = None \<and> contains normalized_label ''goal''
                then (case re_search goal_title_re text of
                        Some m \<Rightarrow> result_slots(''title'' \<mapsto> to_title_case (strip (grp m 1)))
                      | None \<Rightarrow> result_slots)
                else result_slots)
      in if s1 ''title'' = None \<and> contains normalized_label ''journal''
         then (case re_search journal_title_re text of
                 Some m \<Rightarrow> s1(''title'' \<mapsto> to_title_case (strip (grp m 1)))
               | None \<Rightarrow> s1)
         else s1)"

definition derive_slots :: "string \<Rightarrow> RoutedIntent \<Rightarrow> SlotFillOptions option \<Rightarrow> datetime
    \<Rightarrow> error + (string \<rightharpoonup> string)" where
  "derive_slots text base_intent options clock =
     (let now = resolve_now (case options of Some opts \<Rightarrow> sf_now opts | None \<Rightarrow> None) clock;
          result_slots = slots base_intent;
          normalized_label = lower (if rawLabel base_intent \<noteq> [] then rawLabel base_intent
                                    else label base_intent)
      in
      bind_err (find_weekday text now) (\<lambda>weekday_date.
      bind_err (find_relative_day text now) (\<lambda>relative.
      bind_err (find_explicit_date text now) (\<lambda>explicit.
      let candidate0 = (case explicit of Some d \<Rightarrow> Some d
                        | None \<Rightarrow> (case relative of Some d \<Rightarrow> Some d | None \<Rightarrow> weekday_date))
      in
      bind_err (if candidate0 = None \<and> re_search tonight_re text \<noteq> None
                then bind_err (replace_time now 20 0 0 0) (\<lambda>d. Inr (Some d))
                else Inr candidate0) (\<lambda>candidate1.
      bind_err (apply_time text (case candidate1 of Some d \<Rightarrow> Some d | None \<Rightarrow> Some now) now) (\<lambda>time_applied.
      let candidate_date = (case time_applied of Some d \<Rightarrow> Some d | None \<Rightarrow> candidate1)
      in
      bind_err (case candidate_date of
                  None \<Rightarrow> Inr result_slots
                | Some cd \<Rightarrow>
                    bind_err (if contains (lower (label base_intent)) ''schedule''
                              then ensure_past_is_future cd now else Inr cd)
                      (\<lambda>adjusted. date_slots normalized_label (time_applied \<noteq> None) adjusted result_slots))
        (\<lambda>slots1. Inr (title_slots text normalized_label (duration_slot text slots1)))))))))"

definition fill :: "string \<Rightarrow> RoutedIntent \<Rightarrow> SlotFillOptions option \<Rightarrow> datetime \<Rightarrow> error + RoutedIntent" where
  "fill text intent options clock =
     bind_err (derive_slots text intent options clock) (\<lambda>sl. Inr (intent\<lparr>slots := sl\<rparr>))"

section \<open>The pipeline (\<^verbatim>\<open>pipeline.py\<close>)\<close>

text \<open>
  \<^verbatim>\<open>handle_utterance\<close> calls collaborators whose state is not part of this model; what they
  return is the environment of the call:
  \<^item> \<open>env_context_records\<close>: the records retrieved by \<^verbatim>\<open>Memory.search_top_n\<close> and scored by
    \<^verbatim>\<open>score_context_records\<close> (empty when the memory cache is empty and no user is signed in);
  \<^item> \<open>env_window\<close>: the context window that the classifier reads;
  \<^item> \<open>env_clock\<close>: \<^verbatim>\<open>datetime.now(timezone.utc)\<close> as the slot filler reads it;
  \<^item> \<open>env_goal_context\<close>: what \<^verbatim>\<open>list_active_goals_with_context\<close> returns, \<open>None\<close> when it
    raises (the pipeline catches that);
  \<^item> \<open>env_trace_id\<close>: the id from \<^verbatim>\<open>Telemetry.record\<close>, \<open>None\<close> when it raises (caught as well).
  The personalization config of the payload is left out: it is resolved from
  \<^verbatim>\<open>UserConfig\<close> and copied into the payload, and nothing else reads it.
\<close>

record ScoredMemoryRecord = MemoryRecord +
  compositeScore :: real
  scoring :: "(string \<times> real) list"

record pipeline_env =
  env_context_records :: "ScoredMemoryRecord list"
  env_window :: context_window
  env_clock :: datetime
  env_goal_context :: "string list option"
  env_trace_id :: "string option"

record ClassificationMeta =
  cm_id :: string
  cm_label :: string
  cm_confidence :: real
  cm_reasons :: "string list"
  cm_targetEntryId :: "string option"
  cm_targetEntryType :: "string option"
  cm_duplicateMatch :: "duplicate_meta option"
  cm_topCandidates :: "(string \<times> real) list"

record EnrichedPayload =
  userText :: string
  intent :: RoutedIntent
  contextSnippets :: "string list"
  goalContext :: "string list option"
  payload_classification :: ClassificationMeta

record handle_result =
  decision :: RouteDecision
  routedIntent :: RoutedIntent
  nativeIntent :: native_intent
  payload :: EnrichedPayload
  redaction :: RedactionResult
  contextRecords :: "ScoredMemoryRecord list"
  traceId :: "string option"

definition GOAL_KEYWORDS :: "string list" where
  "GOAL_KEYWORDS = [''goal'', ''goals'', ''milestone'', ''milestones'', ''project'', ''habit'', ''plan'']"

definition should_load_goal_context :: "string \<Rightarrow> RoutedIntent \<Rightarrow> classification \<Rightarrow> bool" where
  "should_load_goal_context text routed_intent cl =
     (let normalized = lower text in
      if list_ex (\<lambda>keyword. contains normalized keyword) GOAL_KEYWORDS then True
      else if contains (lower (label routed_intent)) ''goal'' then True
      else if contains (lower (case duplicateMatch cl of Some d \<Rightarrow> dup_kind d | None \<Rightarrow> [])) ''goal'' then True
      else if lower (case targetEntryType cl of Some t \<Rightarrow> t | None \<Rightarrow> []) = ''goal'' then True
      else False)"

definition native_candidates :: "(string \<times> real) list \<Rightarrow> (string \<times> real) list" where
  "native_candidates cands = map (\<lambda>candidate. (to_native_label (fst candidate), snd candidate)) cands"

definition handle_utterance :: "string \<Rightarrow> string option \<Rightarrow> pipeline_env \<Rightarrow> error + handle_result" where
  "handle_utterance text userTimeZone env =
     (let trimmed = strip text in
      if trimmed = [] then Inl ValueError
      else
        let scored_context_records = env_context_records env;
            cl = classify_riflett_intent trimmed scored_context_records (env_window env);
            native = \<lparr>ni_label = Some (to_native_label (cl_label cl)),
                      ni_confidence = Some (cl_confidence cl),
                      ni_top3 = Some (native_candidates (take 3 (topCandidates cl))),
                      ni_topK = Some (native_candidates (topCandidates cl)),
                      ni_modelVersion = Some ''riflett-heuristic-2025-11-07'',
                      ni_matchedTokens = Some [],
                      ni_tokens = Some []\<rparr>;
            base_routed = build_routed_intent native None;
            slot_options = \<lparr>sf_userTimeZone = userTimeZone, sf_now = None\<rparr>
        in bind_err (fill trimmed base_routed (Some slot_options) (env_clock env)) (\<lambda>with_slots.
             let red = mask trimmed;
                 goal_context = (if should_load_goal_context trimmed with_slots cl
                                 then env_goal_context env else None);
                 pl = \<lparr>userText = masked red,
                       intent = with_slots,
                       contextSnippets = map row_text scored_context_records,
                       goalContext = goal_context,
                       payload_classification =
                         \<lparr>cm_id = cl_label cl, cm_label = to_native_label (cl_label cl),
                          cm_confidence = cl_confidence cl, cm_reasons = reasons cl,
                          cm_targetEntryId = targetEntryId cl, cm_targetEntryType = targetEntryType cl,
                          cm_duplicateMatch = duplicateMatch cl,
                          cm_topCandidates = native_candidates (topCandidates cl)\<rparr>\<rparr>;
                 dec = route_intent with_slots
             in Inr \<lparr>decision = dec, routedIntent = with_slots, nativeIntent = native, payload = pl,
                     redaction = red, contextRecords = scored_context_records,
                     traceId = env_trace_id env\<rparr>))"

section \<open>Inputs of the worked cases\<close>

text \<open>A routed intent for the label \<^verbatim>\<open>EntryCreate\<close> with a given confidence.\<close>

definition intent_at :: "real \<Rightarrow> RoutedIntent" where
  "intent_at c = \<lparr>label = ''EntryCreate'', rawLabel = ''Entry Create'', confidence = c,
     secondBest = Some ''EntryAppend'', secondConfidence = Some 0.62, slots = Map.empty,
     topK = [(''Entry Create'', c), (''Entry Append'', 0.62)], modelVersion = None,
     matchedTokens = None, tokens = None\<rparr>"


text \<open>
  A receipt recorded at time 1, followed by ten other messages at the times 2 to 11, recorded
  into a window that starts empty.
\<close>

definition receipt_then_ten :: "(string \<times> int) list" where
  "receipt_then_ten = [(''confirmed'', 1), (''hello'', 2), (''hello'', 3), (''hello'', 4), (''hello'', 5),
     (''hello'', 6), (''hello'', 7), (''hello'', 8), (''hello'', 9), (''hello'', 10), (''hello'', 11)]"

definition empty_window :: context_window where
  "empty_window = \<lparr>cw_state = None, recent_messages = []\<rparr>"

text \<open>A text with an e-mail address between a house number and a street name.\<close>

definition nested_text :: string where
  "nested_text = ''send 2 to a@b.co at Elm St''"

text \<open>
  512 calls of \<^verbatim>\<open>upsert\<close> with the ids \<^verbatim>\<open>x\<close>, \<^verbatim>\<open>xx\<close>, \<^verbatim>\<open>xxx\<close>, ... and the timestamps 0 to
  511, and one more call with a new id.
\<close>

definition call_number :: "nat \<Rightarrow> int \<times> upsert_options" where
  "call_number i = (int i, \<lparr>opt_id = replicate (Suc i) CHR ''x'', opt_kind = ''entry'',
     opt_text = Some ''note'', opt_ts = Some (int i), opt_embedding = Some [1]\<rparr>)"

definition full_calls :: "(int \<times> upsert_options) list" where
  "full_calls = map call_number [0..<512]"

definition one_more :: upsert_options where
  "one_more = \<lparr>opt_id = ''new'', opt_kind = ''entry'', opt_text = Some ''note'', opt_ts = Some 600,
     opt_embedding = Some [1]\<rparr>"

text \<open>
  The utterances of the two worked pipeline cases, Monday 2024-01-01 10:00 UTC (its ordinal
  is 738886), a routed intent with a schedule label, and an environment with no context
  records, an empty window and that Monday as the clock.
\<close>

definition friday_text :: string where
  "friday_text = ''schedule a call next friday at 3pm''"

definition mom_text :: string where
  "mom_text = ''remember to call mom tomorrow''"

definition monday_10am :: datetime where
  "monday_10am = \<lparr>ordinal = 738886, hour = 10, minute = 0, second = 0, microsecond = 0\<rparr>"

definition schedule_intent :: RoutedIntent where
  "schedule_intent = \<lparr>label = ''ScheduleCreate'', rawLabel = ''Schedule Create'', confidence = 0.9,
     secondBest = None, secondConfidence = None, slots = Map.empty, topK = [(''Schedule Create'', 0.9)],
     modelVersion = None, matchedTokens = None, tokens = None\<rparr>"

text \<open>
  The number of days that \<^verbatim>\<open>_find_weekday\<close> adds for the weekday index 5 that \<^verbatim>\<open>WEEKDAY_ORDER\<close> gives
  \<^verbatim>\<open>friday\<close>, with the hint \<^verbatim>\<open>next\<close>.
\<close>

definition friday_days_ahead :: "datetime \<Rightarrow> int" where
  "friday_days_ahead now =
     (if (5 - weekday now + 7) mod 7 = 0 then 7 else (5 - weekday now + 7) mod 7)"

definition quiet_env :: pipeline_env where
  "quiet_env = \<lparr>env_context_records = [], env_window = empty_window, env_clock = monday_10am,
     env_goal_context = Some [], env_trace_id = None\<rparr>"
section \<open>Evaluation of character classes and patterns\<close>

text \<open>
  The character classes are defined by the code of the character.  For the evaluation of a
  pattern on a given text they are restated on the eight bits of the character, bit 0 first,
  which is how a character literal is built.
\<close>

lemma is_space_bits:
  "is_space (Char b0 b1 b2 b3 b4 b5 b6 b7) \<longleftrightarrow> (if b7 then (\<not> b6 \<and> (if b5 then (\<not> b4 \<and> (\<not> b3 \<and> (\<not> b2 \<and> (\<not> b1 \<and> \<not> b0)))) else (\<not> b4 \<and> (\<not> b3 \<and> (b2 \<and> (\<not> b1 \<and> b0)))))) else (\<not> b6 \<and> (if b5 then (\<not> b4 \<and> (\<not> b3 \<and> (\<not> b2 \<and> (\<not> b1 \<and> \<not> b0)))) else (if b4 then (b3 \<and> b2) else (b3 \<and> (if b2 then \<not> b1 else (b1 \<or> b0)))))))"
  by (cases b0; cases b1; cases b2; cases b3; cases b4; cases b5; cases b6; cases b7; simp add: is_space_def)

lemma is_digit_bits:
  "is_digit (Char b0 b1 b2 b3 b4 b5 b6 b7) \<longleftrightarrow> (\<not> b7 \<and> (\<not> b6 \<and> (b5 \<and> (b4 \<and> (\<not> b3 \<or> (\<not> b2 \<and> \<not> b1))))))"
  by (cases b0; cases b1; cases b2; cases b3; cases b4; cases b5; cases b6; cases b7; simp add: is_digit_def)

lemma is_upper_bits:
  "is_upper (Char b0 b1 b2 b3 b4 b5 b6 b7) \<longleftrightarrow> (if b7 then (b6 \<and> (\<not> b5 \<and> (\<not> b4 \<or> (\<not> b2 \<or> (\<not> b1 \<or> \<not> b0))))) else (b6 \<and> (\<not> b5 \<and> (if b4 then (\<not> b3 \<or> (\<not> b2 \<and> (\<not> b1 \<or> \<not> b0))) else (b3 \<or> (b2 \<or> (b1 \<or> b0)))))))"
  by (cases b0; cases b1; cases b2; cases b3; cases b4; cases b5; cases b6; cases b7; simp add: is_upper_def)

lemma is_word_bits:
  "is_word (Char b0 b1 b2 b3 b4 b5 b6 b7) \<longleftrightarrow> (if b7 then (if b6 then (\<not> b4 \<or> (b3 \<or> (\<not> b2 \<or> (\<not> b1 \<or> \<not> b0)))) else (b5 \<and> (if b4 then (if b3 then (if b2 then (\<not> b1 \<or> \<not> b0) else (if b1 then \<not> b0 else b0)) else (if b2 then (\<not> b1 \<and> b0) else b1)) else (b3 \<and> (\<not> b2 \<and> (b1 \<and> \<not> b0)))))) else (if b6 then (if b5 then (if b4 then (\<not> b3 \<or> (\<not> b2 \<and> (\<not> b1 \<or> \<not> b0))) else (b3 \<or> (b2 \<or> (b1 \<or> b0)))) else (if b4 then (\<not> b3 \<or> (if b2 then (b1 \<and> b0) else (\<not> b1 \<or> \<not> b0))) else (b3 \<or> (b2 \<or> (b1 \<or> b0))))) else (b5 \<and> (b4 \<and> (\<not> b3 \<or> (\<not> b2 \<and> \<not> b1))))))"
  by (cases b0; cases b1; cases b2; cases b3; cases b4; cases b5; cases b6; cases b7; simp add: is_word_def)

lemma is_ascii_upper_bits:
  "is_ascii_upper (Char b0 b1 b2 b3 b4 b5 b6 b7) \<longleftrightarrow> (\<not> b7 \<and> (b6 \<and> (\<not> b5 \<and> (if b4 then (\<not> b3 \<or> (\<not> b2 \<and> (\<not> b1 \<or> \<not> b0))) else (b3 \<or> (b2 \<or> (b1 \<or> b0)))))))"
  by (cases b0; cases b1; cases b2; cases b3; cases b4; cases b5; cases b6; cases b7; simp add: is_ascii_upper_def)

lemma is_ascii_lower_bits:
  "is_ascii_lower (Char b0 b1 b2 b3 b4 b5 b6 b7) \<longleftrightarrow> (\<not> b7 \<and> (b6 \<and> (b5 \<and> (if b4 then (\<not> b3 \<or> (\<not> b2 \<and> (\<not> b1 \<or> \<not> b0))) else (b3 \<or> (b2 \<or> (b1 \<or> b0)))))))"
  by (cases b0; cases b1; cases b2; cases b3; cases b4; cases b5; cases b6; cases b7; simp add: is_ascii_lower_def)

lemma lower_chr_bits:
  "lower_chr (Char b0 b1 b2 b3 b4 b5 b6 b7) =
     (if is_upper (Char b0 b1 b2 b3 b4 b5 b6 b7) then Char b0 b1 b2 b3 b4 True b6 b7
      else Char b0 b1 b2 b3 b4 b5 b6 b7)"
  by (simp add: lower_chr_def)

lemma upper_chr_bits:
  "upper_chr (Char b0 b1 b2 b3 b4 b5 b6 b7) =
     (if is_upper (Char b0 b1 b2 b3 b4 False b6 b7) then Char b0 b1 b2 b3 b4 False b6 b7
      else Char b0 b1 b2 b3 b4 b5 b6 b7)"
  by (simp add: upper_chr_def)

lemmas chr_eval = is_space_bits is_digit_bits is_upper_bits is_word_bits is_ascii_upper_bits
  is_ascii_lower_bits lower_chr_bits upper_chr_bits is_ascii_alnum_def

lemmas rx_defs = lit_def lit_i_def chr_def chr_i_def ropt_def rstar_def rplus_def rtimes_def
  rtimes_min_def

lemmas rx_eval = chr_eval rx_defs at_word_boundary_def then_match_def re_search_def re_sub_def
  re_split_def re_findall_def group_def grp_def Let_def

lemmas str_eval = chr_eval lower_def strip_def replace_def join_def Let_def


section \<open>Properties of the context window\<close>

text \<open>
  C8.  After \<^verbatim>\<open>register_entry("e1", "journal")\<close> the snapshot is active with decay score 1.
  Four calls of \<^verbatim>\<open>advance_turn(False)\<close> with no new entry multiply the score by 0.6 each: it
  is 0.216 after the third, still at least 0.2, and 0.1296 after the fourth, below the floor,
  so the focus is cleared and the snapshot is null.  This holds for every earlier state of
  the window and every reading of the clock.
\<close>

theorem C8_register_then_four_turns:
  "snapshot (register_entry ''e1'' ''journal'' t0 cw) =
     Some \<lparr>snap_entryId = ''e1'', snap_entryType = ''journal'', snap_createdAt = t0,
           snap_decayScore = 1, snap_isActive = True\<rparr>
   \<and> map_option snap_decayScore
        (snapshot (advance_turn False t3 (advance_turn False t2 (advance_turn False t1
           (register_entry ''e1'' ''journal'' t0 cw))))) = Some (0.6 ^ 3)
   \<and> (0.6 :: real) ^ 4 = 0.1296 \<and> (0.1296 :: real) < MIN_ACTIVE_SCORE
   \<and> snapshot (advance_turn False t4 (advance_turn False t3 (advance_turn False t2
        (advance_turn False t1 (register_entry ''e1'' ''journal'' t0 cw))))) = None"
  by (simp add: snapshot_def advance_turn_def apply_decay_def register_entry_def
      DECAY_FACTOR_def MIN_ACTIVE_SCORE_def Let_def power_numeral_reduce)

section \<open>Properties of the classifier\<close>

lemma classify_empty:
  "strip text = [] \<Longrightarrow> classify_riflett_intent text context_records cw =
     \<lparr>cl_label = ''conversational'', cl_confidence = 0.6,
      reasons = [''Empty message defaults to conversational''],
      targetEntryId = None, targetEntryType = None, duplicateMatch = None,
      topCandidates = [base_candidate ''conversational'' 0.6]\<rparr>"
  by (simp add: classify_riflett_intent_def Let_def)

lemma classify_command:
  "strip text \<noteq> [] \<Longrightarrow> re_search COMMAND_PATTERN (strip text) \<noteq> None \<Longrightarrow>
   classify_riflett_intent text context_records cw =
     \<lparr>cl_label = ''command'', cl_confidence = 0.99,
      reasons = [''Slash-prefixed command detected''],
      targetEntryId = None, targetEntryType = None, duplicateMatch = None,
      topCandidates = [base_candidate ''command'' 0.99]\<rparr>"
  by (simp add: classify_riflett_intent_def Let_def)

lemma strip_remind: "strip ''/remind me'' = ''/remind me''"
  by (simp add: str_eval)

lemma strip_empty: "strip [] = []"
  by (simp add: strip_def)

lemma command_remind: "re_search COMMAND_PATTERN ''/remind me'' \<noteq> None"
  by (simp add: COMMAND_PATTERN_def rx_eval)

text \<open>
  C6.  Whatever the memory records and the context window are, the input \<^verbatim>\<open>"/remind me"\<close> is
  classified as \<^verbatim>\<open>command\<close> with confidence 0.99 and the empty input as
  \<^verbatim>\<open>conversational\<close> with confidence 0.6.
\<close>

theorem C6_classifier_precedence:
  "cl_label (classify_riflett_intent ''/remind me'' context_records cw) = ''command''
   \<and> cl_confidence (classify_riflett_intent ''/remind me'' context_records cw) = 0.99
   \<and> cl_label (classify_riflett_intent '''' context_records cw) = ''conversational''
   \<and> cl_confidence (classify_riflett_intent '''' context_records cw) = 0.6"
proof -
  have "classify_riflett_intent ''/remind me'' context_records cw =
     \<lparr>cl_label = ''command'', cl_confidence = 0.99,
      reasons = [''Slash-prefixed command detected''],
      targetEntryId = None, targetEntryType = None, duplicateMatch = None,
      topCandidates = [base_candidate ''command'' 0.99]\<rparr>"
    by (rule classify_command) (simp_all add: strip_remind command_remind)
  moreover have "classify_riflett_intent '''' context_records cw =
     \<lparr>cl_label = ''conversational'', cl_confidence = 0.6,
      reasons = [''Empty message defaults to conversational''],
      targetEntryId = None, targetEntryType = None, duplicateMatch = None,
      topCandidates = [base_candidate ''conversational'' 0.6]\<rparr>"
    by (rule classify_empty) (rule strip_empty)
  ultimately show ?thesis by simp
qed

lemma create_confidence_bounds:
  "0.86 \<le> create_confidence_of s t w" "create_confidence_of s t w \<le> 0.97"
  by (simp_all add: create_confidence_of_def)

text \<open>
  C10.  For every text, every list of context records and every context window, the list
  \<^verbatim>\<open>topCandidates\<close> of the classification is not empty, its first element carries the
  label and the confidence that the classification returns, and its confidences do not
  increase along the list.
\<close>

theorem C10_top_candidates_ranked:
  "topCandidates (classify_riflett_intent text context_records cw) \<noteq> []
   \<and> hd (topCandidates (classify_riflett_intent text context_records cw))
       = (cl_label (classify_riflett_intent text context_records cw),
          cl_confidence (classify_riflett_intent text context_records cw))
   \<and> sorted_wrt (\<lambda>a b. a \<ge> b)
       (map snd (topCandidates (classify_riflett_intent text context_records cw)))"
proof -
  define ranked :: "classification \<Rightarrow> bool" where
    "ranked r \<longleftrightarrow> topCandidates r \<noteq> [] \<and> hd (topCandidates r) = (cl_label r, cl_confidence r)
        \<and> sorted_wrt (\<lambda>a b. a \<ge> b) (map snd (topCandidates r))" for r
  have leaf: "ranked \<lparr>cl_label = l, cl_confidence = c, reasons = rs, targetEntryId = ti,
      targetEntryType = tt, duplicateMatch = dm, topCandidates = (l, c) # rest\<rparr>"
    if "sorted_wrt (\<lambda>a b. a \<ge> b) (c # map snd rest)" for l c rs ti tt dm rest
    using that by (simp add: ranked_def)
  have b: "39 \<le> create_confidence_of s t w * 50" "31 \<le> create_confidence_of s t w * 50"
    "3 \<le> create_confidence_of s t w * 5" for s t w
    using create_confidence_bounds(1)[of s t w] by simp_all
  have split: "ranked (if c then x else y)" if "c \<Longrightarrow> ranked x" "\<not> c \<Longrightarrow> ranked y" for c x y
    using that by simp
  have "ranked (classify_riflett_intent text context_records cw)"
    by (unfold classify_riflett_intent_def Let_def base_candidate_def,
        (intro split leaf; simp (no_asm) add: b))
  then show ?thesis
    by (simp add: ranked_def)
qed

section \<open>Routing\<close>

text \<open>
  C7.  For every routed intent: a confidence of at least 0.75 gives a commit decision for the
  label, with the secondary intent only if its confidence is at least 0.6; a confidence of
  at least 0.45 and below 0.75 gives a clarify decision whose question is
  \<^verbatim>\<open>Did you want to <label in words>?\<close>; a confidence below 0.45 gives fallback.
\<close>

theorem C7_route_thresholds:
  "(confidence ri \<ge> 0.75 \<longrightarrow>
      route_intent ri =
        \<lparr>kind = commit, primary = Some (label ri),
         maybeSecondary = (if (case secondConfidence ri of Some c \<Rightarrow> c | None \<Rightarrow> 0) \<ge> 0.6
                           then secondBest ri else None),
         question = None\<rparr>)
   \<and> (0.45 \<le> confidence ri \<and> confidence ri < 0.75 \<longrightarrow>
      route_intent ri =
        \<lparr>kind = clarify, primary = None, maybeSecondary = None,
         question = Some (''Did you want to '' @ replace (to_snake_case (label ri)) ''_'' '' '' @ ''?'')\<rparr>)
   \<and> (confidence ri < 0.45 \<longrightarrow>
      route_intent ri = \<lparr>kind = fallback, primary = None, maybeSecondary = None, question = None\<rparr>)"
  by (simp add: route_intent_def ROUTE_AT_THRESHOLD_def CLARIFY_LOWER_THRESHOLD_def
      SECONDARY_INTENT_THRESHOLD_def Let_def)

lemma snake_entry_create: "to_snake_case ''EntryCreate'' = ''entry_create''"
  by (simp add: to_snake_case_def WORD_BOUNDARY_def rx_eval str_eval)

lemma human_entry_create: "replace ''entry_create'' ''_'' '' '' = ''entry create''"
  by (simp add: replace_def)

text \<open>The confidences 0.80, 0.50 and 0.10 of the claim: commit, clarify and fallback.\<close>

theorem C7_route_thresholds_witness:
  "confidence (intent_at 0.80) \<ge> 0.75
   \<and> route_intent (intent_at 0.80) =
        \<lparr>kind = commit, primary = Some ''EntryCreate'', maybeSecondary = Some ''EntryAppend'',
         question = None\<rparr>
   \<and> 0.45 \<le> confidence (intent_at 0.50) \<and> confidence (intent_at 0.50) < 0.75
   \<and> route_intent (intent_at 0.50) =
        \<lparr>kind = clarify, primary = None, maybeSecondary = None,
         question = Some ''Did you want to entry create?''\<rparr>
   \<and> confidence (intent_at 0.10) < 0.45
   \<and> route_intent (intent_at 0.10) =
        \<lparr>kind = fallback, primary = None, maybeSecondary = None, question = None\<rparr>"
  using C7_route_thresholds [of "intent_at 0.80"] C7_route_thresholds [of "intent_at 0.50"]
    C7_route_thresholds [of "intent_at 0.10"]
  by (simp add: intent_at_def snake_entry_create human_entry_create)

section \<open>Pruning of the recent messages\<close>

lemma pop_excess_drop: "pop_excess xs = drop (length xs - MAX_SEMANTIC_TURNS) xs"
proof (induction xs rule: pop_excess.induct)
  case (1 preserved)
  show ?case
  proof (cases "length preserved > MAX_SEMANTIC_TURNS")
    case True
    then have "pop_excess preserved = pop_excess (tl preserved)"
      by (subst pop_excess.simps) simp
    also have "\<dots> = drop (length (tl preserved) - MAX_SEMANTIC_TURNS) (tl preserved)"
      using 1 True by simp
    also have "\<dots> = drop (length preserved - MAX_SEMANTIC_TURNS) preserved"
    proof (cases preserved)
      case Nil
      then show ?thesis by simp
    next
      case (Cons a list)
      with True have "length preserved - MAX_SEMANTIC_TURNS = Suc (length list - MAX_SEMANTIC_TURNS)"
        by (simp add: MAX_SEMANTIC_TURNS_def)
      with Cons show ?thesis by simp
    qed
    finally show ?thesis .
  next
    case False
    then show ?thesis by (subst pop_excess.simps) simp
  qed
qed

lemma prune_bounded: "length (prune_low_signal_messages msgs) \<le> MAX_SEMANTIC_TURNS"
  by (simp add: prune_low_signal_messages_def pop_excess_drop Let_def)

lemma prune_sorted: "sorted (map rm_ts (prune_low_signal_messages msgs))"
  by (simp add: prune_low_signal_messages_def pop_excess_drop Let_def drop_map [symmetric] sorted_wrt_drop)

lemma record_ring:
  "text \<noteq> [] \<Longrightarrow> recent_messages (record_user_message text now_ms cw) =
     prune_low_signal_messages (recent_messages cw @
       [\<lparr>rm_text = text, rm_ts = now_ms,
         rm_score = (if is_receipt_message text then 1 else compute_message_score text),
         isReceipt = is_receipt_message text\<rparr>])"
  by (simp add: record_user_message_def Let_def split: option.split)

lemma receipt_confirmed: "is_receipt_message ''confirmed''"
  by (simp add: is_receipt_message_def str_eval)

lemma receipt_hello: "\<not> is_receipt_message ''hello''"
  by (simp add: is_receipt_message_def str_eval)

lemma prune_eval:
  "prune_low_signal_messages msgs =
     (let preserved = sort_key rm_ts (foldl preserve_step [] (sort_key (\<lambda>msg. - rm_ts msg) msgs))
      in drop (length preserved - 10) preserved)"
  by (simp add: prune_low_signal_messages_def pop_excess_drop Let_def MAX_SEMANTIC_TURNS_def)

text \<open>
  C3.  The claim is that pruning never removes a receipt.  The first pass of
  \<^verbatim>\<open>_prune_low_signal_messages\<close> keeps every receipt, but the loop after it pops the oldest
  messages until ten are left, receipts or not.  Here one receipt is recorded and then ten
  other messages: after the tenth call the receipt is still in the ring, and the eleventh
  call removes it although it is the only receipt; the ring then holds ten messages, none
  of them a receipt.
\<close>

theorem C3_receipt_pruned:
  "is_receipt_message ''confirmed'' \<and> \<not> is_receipt_message ''hello''
   \<and> map rm_text (recent_messages (record_all (take 10 receipt_then_ten) empty_window))
       = [''confirmed'', ''hello'', ''hello'', ''hello'', ''hello'', ''hello'', ''hello'', ''hello'',
          ''hello'', ''hello'']
   \<and> map rm_text (recent_messages (record_all receipt_then_ten empty_window))
       = [''hello'', ''hello'', ''hello'', ''hello'', ''hello'', ''hello'', ''hello'', ''hello'',
          ''hello'', ''hello'']
   \<and> list_all (\<lambda>m. \<not> isReceipt m) (recent_messages (record_all receipt_then_ten empty_window))"
  by (simp add: receipt_confirmed receipt_hello record_all_def receipt_then_ten_def empty_window_def
      record_ring prune_eval preserve_step_def MAX_SEMANTIC_TURNS_def Let_def)

section \<open>Round trip of the redactor\<close>

lemmas mask_eval = mask_def mask_step_def PATTERNS_def email_re_def phone_re_def card_re_def
  address_re_def space_or_dash_def replacer_def str_nat.simps digit_chr_def card_match_valid_def

lemma mask_nested:
  "mask nested_text =
     \<lparr>masked = ''send [ADDR_0]'',
      replacementMap = [(''[EMAIL_0]'', ''a@b.co''), (''[ADDR_0]'', ''2 to [EMAIL_0] at Elm St'')]\<rparr>"
  by (simp add: nested_text_def mask_eval rx_eval)

text \<open>
  C4.  The claim is the round trip \<^verbatim>\<open>unmask(mask(text).masked, mask(text).replacementMap) == text\<close>
  for a text without a placeholder in it.  In the text below the e-mail pattern masks the
  address \<^verbatim>\<open>a@b.co\<close> first; the address pattern then matches from the house number to the
  street name, across the placeholder, and stores the matched text with the placeholder in
  it.  \<^verbatim>\<open>unmask\<close> replaces the placeholders in the order of their insertion, so the e-mail
  placeholder is looked for before the address placeholder has brought it back, and it stays.
\<close>

theorem C4_round_trip_fails:
  "CHR ''['' \<notin> set nested_text
   \<and> masked (mask nested_text) = ''send [ADDR_0]''
   \<and> replacementMap (mask nested_text)
       = [(''[EMAIL_0]'', ''a@b.co''), (''[ADDR_0]'', ''2 to [EMAIL_0] at Elm St'')]
   \<and> unmask (masked (mask nested_text)) (replacementMap (mask nested_text))
       = ''send 2 to [EMAIL_0] at Elm St''
   \<and> unmask (masked (mask nested_text)) (replacementMap (mask nested_text)) \<noteq> nested_text"
  by (simp add: mask_nested unmask_def replace_def) (simp add: nested_text_def)

section \<open>Properties of the embedder\<close>






















section \<open>Capacity of the memory store\<close>

lemma update_fresh: "k \<notin> fst ` set al \<Longrightarrow> AList.update k v al = al @ [(k, v)]"
  by (induction al) auto

lemma update_subset: "set (AList.update k v al) \<subseteq> insert (k, v) (set al)"
  by (induction al) auto

lemma cache_inv_update:
  assumes "cache_inv c" "row_id r = k"
  shows "cache_inv (AList.update k r c)"
proof -
  have "list_all (\<lambda>kv. row_id (snd kv) = fst kv) (AList.update k r c)"
    using assms update_subset [of k r c] by (auto simp add: cache_inv_def list_all_iff)
  with assms show ?thesis
    by (simp add: cache_inv_def distinct_update)
qed

lemma foldl_update_fresh:
  "distinct (map row_id rows) \<Longrightarrow> (\<forall>r\<in>set rows. row_id r \<notin> fst ` set acc) \<Longrightarrow>
     foldl (\<lambda>d r. AList.update (row_id r) r d) acc rows = acc @ map (\<lambda>r. (row_id r, r)) rows"
proof (induction rows arbitrary: acc)
  case Nil
  then show ?case by simp
next
  case (Cons r rows)
  have fresh: "row_id r \<notin> fst ` set acc" using Cons.prems by simp
  have "\<forall>r'\<in>set rows. row_id r' \<notin> fst ` set (acc @ [(row_id r, r)])"
    using Cons.prems by (auto simp add: image_iff)
  with Cons show ?case
    by (simp add: update_fresh [OF fresh])
qed

lemma cache_inv_ids: "cache_inv c \<Longrightarrow> map row_id (map snd c) = map fst c"
  by (simp add: cache_inv_def list_all_iff)

lemma distinct_map_insort_key:
  "distinct (map g (insort_key f x xs)) = (g x \<notin> g ` set xs \<and> distinct (map g xs))"
  by (induction xs) (auto simp add: set_insort_key)

lemma distinct_map_sort_key: "distinct (map g (sort_key f xs)) = distinct (map g xs)"
  by (induction xs) (simp_all add: distinct_map_insort_key)

lemma kept_rows_distinct:
  "cache_inv c \<Longrightarrow> distinct (map row_id (take n (sort_key f (map snd c))))"
proof -
  assume inv: "cache_inv c"
  then have "distinct (map fst c)"
    by (simp add: cache_inv_def)
  then have "distinct (map row_id (map snd c))"
    by (simp only: cache_inv_ids [OF inv])
  then have "distinct (map row_id (sort_key f (map snd c)))"
    by (simp only: distinct_map_sort_key)
  then show ?thesis
    by (simp add: take_map [symmetric] distinct_take)
qed

lemma upsert_over:
  assumes "cache_inv c"
    and "MAX_CACHED_ROWS < length (AList.update (opt_id options) (upsert_row ce now_ms options) c)"
  shows "upsert ce now_ms options c =
     map (\<lambda>r. (row_id r, r)) (take MAX_CACHED_ROWS (sort_key (\<lambda>v. - row_ts v)
        (map snd (AList.update (opt_id options) (upsert_row ce now_ms options) c))))"
proof -
  have id: "row_id (upsert_row ce now_ms options) = opt_id options"
    by (simp add: upsert_row_def Let_def)
  have inv: "cache_inv (AList.update (opt_id options) (upsert_row ce now_ms options) c)"
    using assms(1) id by (rule cache_inv_update)
  show ?thesis
    using assms(2) foldl_update_fresh [OF kept_rows_distinct [OF inv], where acc = "[]"]
    by (simp add: upsert_def Let_def id)
qed

lemma upsert_under:
  "\<not> MAX_CACHED_ROWS < length (AList.update (opt_id options) (upsert_row ce now_ms options) c) \<Longrightarrow>
   upsert ce now_ms options c = AList.update (opt_id options) (upsert_row ce now_ms options) c"
  by (simp add: upsert_def Let_def upsert_row_def)

lemma cache_inv_map: "distinct (map row_id rows) \<Longrightarrow> cache_inv (map (\<lambda>r. (row_id r, r)) rows)"
  by (simp add: cache_inv_def list_all_iff comp_def)

lemma upsert_inv:
  assumes "cache_inv c"
  shows "cache_inv (upsert ce now_ms options c) \<and> length (upsert ce now_ms options c) \<le> MAX_CACHED_ROWS"
proof (cases "MAX_CACHED_ROWS < length (AList.update (opt_id options) (upsert_row ce now_ms options) c)")
  case True
  have id: "row_id (upsert_row ce now_ms options) = opt_id options"
    by (simp add: upsert_row_def Let_def)
  have inv: "cache_inv (AList.update (opt_id options) (upsert_row ce now_ms options) c)"
    using assms id by (rule cache_inv_update)
  show ?thesis
    using cache_inv_map [OF kept_rows_distinct [OF inv]]
    by (simp add: upsert_over [OF assms True])
next
  case False
  have id: "row_id (upsert_row ce now_ms options) = opt_id options"
    by (simp add: upsert_row_def Let_def)
  show ?thesis
    using False cache_inv_update [OF assms id] by (simp add: upsert_under [OF False])
qed

lemma upsert_all_inv:
  "cache_inv c \<Longrightarrow> length c \<le> MAX_CACHED_ROWS \<Longrightarrow>
   cache_inv (upsert_all ce calls c) \<and> length (upsert_all ce calls c) \<le> MAX_CACHED_ROWS"
proof (induction calls arbitrary: c)
  case Nil
  then show ?case by (simp add: upsert_all_def)
next
  case (Cons call calls)
  have step: "cache_inv (upsert ce (fst call) (snd call) c)
      \<and> length (upsert ce (fst call) (snd call) c) \<le> MAX_CACHED_ROWS"
    using Cons.prems(1) by (rule upsert_inv)
  have "upsert_all ce (call # calls) c = upsert_all ce calls (upsert ce (fst call) (snd call) c)"
    by (simp add: upsert_all_def)
  with Cons.IH step show ?case by simp
qed

lemma reachable_inv:
  "cache_inv (upsert_all ce calls []) \<and> length (upsert_all ce calls []) \<le> MAX_CACHED_ROWS"
  by (rule upsert_all_inv) (simp_all add: cache_inv_def)

lemma sorted_take_drop:
  assumes "sorted (map f zs)" "a \<in> set (take n zs)" "b \<in> set (drop n zs)"
  shows "f a \<le> f b"
proof -
  have "sorted (map f (take n zs) @ map f (drop n zs))"
    using assms(1) by (simp add: map_append [symmetric] del: map_append)
  then show ?thesis
    using assms(2,3) by (auto simp add: sorted_append)
qed

text \<open>
  C5.  For every sequence of \<^verbatim>\<open>upsert\<close> calls from the empty store, the store holds at most
  512 rows after the last call, hence after each call, and their ids are distinct.  For one
  more call that takes the number of rows over 512, exactly 512 rows with distinct ids are
  left, all of them rows the store held after the assignment, and no row that is dropped has
  a newer timestamp than a row that is kept.
\<close>

theorem C5_capacity:
  "length (upsert_all ce calls []) \<le> 512
   \<and> distinct (map fst (upsert_all ce calls []))
   \<and> (512 < length (AList.update (opt_id options) (upsert_row ce now_ms options) (upsert_all ce calls []))
      \<longrightarrow> length (upsert ce now_ms options (upsert_all ce calls [])) = 512
        \<and> distinct (map fst (upsert ce now_ms options (upsert_all ce calls [])))
        \<and> set (upsert ce now_ms options (upsert_all ce calls []))
            \<subseteq> set (AList.update (opt_id options) (upsert_row ce now_ms options) (upsert_all ce calls []))
        \<and> (\<forall>dropped \<in> set (AList.update (opt_id options) (upsert_row ce now_ms options)
                              (upsert_all ce calls []))
                         - set (upsert ce now_ms options (upsert_all ce calls [])).
            \<forall>kept \<in> set (upsert ce now_ms options (upsert_all ce calls [])).
              row_ts (snd dropped) \<le> row_ts (snd kept)))"
proof -
  define c where "c = upsert_all ce calls []"
  define c1 where "c1 = AList.update (opt_id options) (upsert_row ce now_ms options) c"
  define zs where "zs = sort_key (\<lambda>v. - row_ts v) (map snd c1)"
  have inv: "cache_inv c" and len: "length c \<le> MAX_CACHED_ROWS"
    using reachable_inv [of ce calls] by (simp_all add: c_def)
  have id: "row_id (upsert_row ce now_ms options) = opt_id options"
    by (simp add: upsert_row_def Let_def)
  have inv1: "cache_inv c1"
    unfolding c1_def using inv id by (rule cache_inv_update)
  have pairs: "(row_id r, r) \<in> set c1" if "r \<in> set (map snd c1)" for r
    using that inv1 by (auto simp add: cache_inv_def list_all_iff)
  have dist: "distinct (map fst c)"
    using inv by (simp add: cache_inv_def)
  have dist1: "distinct (map fst (upsert ce now_ms options c))"
    using upsert_inv [OF inv, of ce now_ms options] by (simp add: cache_inv_def)
  have over: "length (upsert ce now_ms options c) = MAX_CACHED_ROWS
        \<and> set (upsert ce now_ms options c) \<subseteq> set c1
        \<and> (\<forall>dropped \<in> set c1 - set (upsert ce now_ms options c).
            \<forall>kept \<in> set (upsert ce now_ms options c). row_ts (snd dropped) \<le> row_ts (snd kept))"
    if big: "MAX_CACHED_ROWS < length c1"
  proof -
    have eq: "upsert ce now_ms options c = map (\<lambda>r. (row_id r, r)) (take MAX_CACHED_ROWS zs)"
      using upsert_over [OF inv, of options ce now_ms] big by (simp add: c1_def zs_def)
    have "length zs = length c1" by (simp add: zs_def)
    with big have l: "length (upsert ce now_ms options c) = MAX_CACHED_ROWS"
      by (simp add: eq)
    have zs_set: "set zs = set (map snd c1)" by (simp add: zs_def)
    have sub: "set (upsert ce now_ms options c) \<subseteq> set c1"
    proof
      fix p assume "p \<in> set (upsert ce now_ms options c)"
      then obtain r where "r \<in> set (take MAX_CACHED_ROWS zs)" "p = (row_id r, r)"
        by (auto simp add: eq)
      moreover from this have "r \<in> set zs" by (auto dest: in_set_takeD)
      ultimately show "p \<in> set c1" using pairs zs_set by simp
    qed
    have srt: "sorted (map (\<lambda>v. - row_ts v) zs)" by (simp add: zs_def)
    have order: "row_ts (snd d) \<le> row_ts (snd k)"
      if d: "d \<in> set c1 - set (upsert ce now_ms options c)" and k: "k \<in> set (upsert ce now_ms options c)"
      for d k
    proof -
      from k obtain rk where rk: "rk \<in> set (take MAX_CACHED_ROWS zs)" "k = (row_id rk, rk)"
        by (auto simp add: eq)
      from d have dc: "d \<in> set c1" and dn: "d \<notin> set (upsert ce now_ms options c)" by simp_all
      from dc inv1 have did: "d = (row_id (snd d), snd d)"
        by (cases d) (auto simp add: cache_inv_def list_all_iff)
      from dc have "snd d \<in> set zs" by (simp add: zs_set)
      then have "snd d \<in> set (take MAX_CACHED_ROWS zs) \<or> snd d \<in> set (drop MAX_CACHED_ROWS zs)"
        by (metis Un_iff append_take_drop_id set_append)
      moreover have "snd d \<notin> set (take MAX_CACHED_ROWS zs)"
      proof
        assume "snd d \<in> set (take MAX_CACHED_ROWS zs)"
        then have "(row_id (snd d), snd d) \<in> set (upsert ce now_ms options c)"
          by (simp add: eq)
        with did dn show False by simp
      qed
      ultimately have "snd d \<in> set (drop MAX_CACHED_ROWS zs)" by simp
      from sorted_take_drop [OF srt rk(1) this] show ?thesis
        by (simp add: rk(2))
    qed
    from l sub order show ?thesis by blast
  qed
  from len dist dist1 over show ?thesis
    by (simp add: c_def c1_def MAX_CACHED_ROWS_def)
qed

lemma upsert_all_fresh:
  "distinct (map fst c @ map (\<lambda>call. opt_id (snd call)) calls) \<Longrightarrow>
   length c + length calls \<le> MAX_CACHED_ROWS \<Longrightarrow>
   map fst (upsert_all ce calls c) = map fst c @ map (\<lambda>call. opt_id (snd call)) calls"
proof (induction calls arbitrary: c)
  case Nil
  then show ?case by (simp add: upsert_all_def)
next
  case (Cons call calls)
  let ?k = "opt_id (snd call)"
  let ?r = "upsert_row ce (fst call) (snd call)"
  have fresh: "?k \<notin> fst ` set c" using Cons.prems(1) by auto
  have c1: "AList.update ?k ?r c = c @ [(?k, ?r)]" by (rule update_fresh [OF fresh])
  have "\<not> MAX_CACHED_ROWS < length (AList.update ?k ?r c)"
    using Cons.prems(2) by (simp add: c1)
  then have up: "upsert ce (fst call) (snd call) c = c @ [(?k, ?r)]"
    by (simp add: upsert_under c1)
  have "upsert_all ce (call # calls) c = upsert_all ce calls (c @ [(?k, ?r)])"
    by (simp add: upsert_all_def up)
  moreover have "map fst (upsert_all ce calls (c @ [(?k, ?r)]))
      = map fst (c @ [(?k, ?r)]) @ map (\<lambda>call. opt_id (snd call)) calls"
    using Cons.prems by (intro Cons.IH) simp_all
  ultimately show ?case by simp
qed

lemma full_calls_ids:
  "map (\<lambda>call. opt_id (snd call)) full_calls = map (\<lambda>i. replicate (Suc i) CHR ''x'') [0..<512]"
  by (simp add: full_calls_def call_number_def comp_def)

lemma full_calls_distinct: "distinct (map (\<lambda>call. opt_id (snd call)) full_calls)"
proof -
  have "inj_on (\<lambda>i. replicate (Suc i) CHR ''x'') (set [0..<512])"
    by (rule inj_onI) (metis length_replicate nat.inject)
  then show ?thesis
    by (simp only: full_calls_ids distinct_map distinct_upt simp_thms)
qed

lemma full_cache_keys:
  "map fst (upsert_all ce full_calls []) = map (\<lambda>i. replicate (Suc i) CHR ''x'') [0..<512]"
proof -
  have d: "distinct (map fst ([] :: memory_cache) @ map (\<lambda>call. opt_id (snd call)) full_calls)"
    using full_calls_distinct by simp
  have l: "length ([] :: memory_cache) + length full_calls \<le> MAX_CACHED_ROWS"
    by (simp add: full_calls_def MAX_CACHED_ROWS_def)
  have "map fst (upsert_all ce full_calls []) = map fst ([] :: memory_cache) @ map (\<lambda>call. opt_id (snd call)) full_calls"
    using d l by (rule upsert_all_fresh)
  also have "\<dots> = map (\<lambda>call. opt_id (snd call)) full_calls" by simp
  finally show ?thesis by (simp only: full_calls_ids)
qed

lemma full_cache_length: "length (upsert_all ce full_calls []) = 512"
  using arg_cong [OF full_cache_keys [of ce], of length] by simp

lemma new_is_fresh: "opt_id one_more \<notin> fst ` set (upsert_all ce full_calls [])"
proof -
  have a: "''new'' \<notin> set (map (\<lambda>i. replicate (Suc i) CHR ''x'') [0..<512])"
    by auto
  have "fst ` set (upsert_all ce full_calls []) = set (map fst (upsert_all ce full_calls []))"
    by simp
  then have b: "fst ` set (upsert_all ce full_calls [])
      = set (map (\<lambda>i. replicate (Suc i) CHR ''x'') [0..<512])"
    by (simp only: full_cache_keys)
  have c: "opt_id one_more = ''new''"
    by (simp add: one_more_def)
  show ?thesis
    unfolding b c by (rule a)
qed

lemma over_capacity:
  "length (AList.update (opt_id one_more) (upsert_row ce 600 one_more) (upsert_all ce full_calls [])) = 513"
  by (simp add: update_fresh [OF new_is_fresh] full_cache_length)

text \<open>
  The store after the 512 calls is full; the call with the new id takes it to 513 rows, and
  the eviction leaves 512 of them, so that a row is dropped.
\<close>

theorem C5_capacity_witness:
  "512 < length (AList.update (opt_id one_more) (upsert_row None 600 one_more)
                   (upsert_all None full_calls []))
   \<and> length (upsert None 600 one_more (upsert_all None full_calls [])) = 512
   \<and> set (upsert None 600 one_more (upsert_all None full_calls []))
        \<subseteq> set (AList.update (opt_id one_more) (upsert_row None 600 one_more)
                   (upsert_all None full_calls []))
   \<and> set (AList.update (opt_id one_more) (upsert_row None 600 one_more) (upsert_all None full_calls []))
        - set (upsert None 600 one_more (upsert_all None full_calls [])) \<noteq> {}"
proof -
  let ?c1 = "AList.update (opt_id one_more) (upsert_row None 600 one_more) (upsert_all None full_calls [])"
  let ?c' = "upsert None 600 one_more (upsert_all None full_calls [])"
  have big: "512 < length ?c1" by (simp add: over_capacity)
  from C5_capacity [of None full_calls one_more 600] big
  have l: "length ?c' = 512" and sub: "set ?c' \<subseteq> set ?c1" by simp_all
  have "cache_inv ?c1"
    using reachable_inv [of None full_calls]
    by (intro cache_inv_update) (simp_all add: upsert_row_def Let_def)
  then have "distinct ?c1"
    by (simp add: cache_inv_def distinct_map)
  then have "card (set ?c1) = 513"
    by (simp add: distinct_card over_capacity)
  moreover have "card (set ?c') \<le> 512"
    using card_length [of ?c'] l by simp
  ultimately have cards: "card (set ?c') < card (set ?c1)"
    by simp
  have "set ?c1 - set ?c' \<noteq> {}"
  proof
    assume "set ?c1 - set ?c' = {}"
    then have "set ?c1 \<subseteq> set ?c'" by simp
    then have "card (set ?c1) \<le> card (set ?c')" by (simp add: card_mono)
    with cards show False by simp
  qed
  with big l sub show ?thesis by simp
qed

section \<open>The slot filler on the text of the Friday call\<close>

lemma friday_weekday:
  "re_search weekday_re friday_text =
     Some \<lparr>m_pre = ''schedule a call '', m_text = ''next friday'', m_caps = [(2, ''friday''), (1, ''next'')]\<rparr>"
  by (simp add: friday_text_def weekday_re_def rx_eval)

lemma friday_today: "re_search today_re friday_text = None"
  by (simp add: friday_text_def today_re_def rx_eval)

lemma friday_tomorrow: "re_search tomorrow_re friday_text = None"
  by (simp add: friday_text_def tomorrow_re_def rx_eval)

lemma friday_day_after: "re_search day_after_tomorrow_re friday_text = None"
  by (simp add: friday_text_def day_after_tomorrow_re_def rx_eval)

lemma friday_iso: "re_search iso_date_re friday_text = None"
  by (simp add: friday_text_def iso_date_re_def rx_eval)

lemma friday_slash: "re_search slash_date_re friday_text = None"
  by (simp add: friday_text_def slash_date_re_def rx_eval)

lemma friday_month: "re_search month_date_re friday_text = None"
  by (simp add: friday_text_def month_date_re_def rx_eval)

lemma friday_time:
  "re_search apply_time_re friday_text =
     Some \<lparr>m_pre = ''schedule a call next friday '', m_text = ''at 3pm'', m_caps = [(3, ''pm''), (1, ''3'')]\<rparr>"
  by (simp add: friday_text_def apply_time_re_def rx_eval)

lemma friday_duration: "re_search duration_re friday_text = None"
  by (simp add: friday_text_def duration_re_def rx_eval)

lemma friday_goal_title: "re_search goal_title_re friday_text = None"
  by (simp add: friday_text_def goal_title_re_def rx_eval)

lemma friday_journal_title: "re_search journal_title_re friday_text = None"
  by (simp add: friday_text_def journal_title_re_def rx_eval)

lemma friday_days_ahead_range: "1 \<le> friday_days_ahead now" "friday_days_ahead now \<le> 7"
proof -
  have "0 \<le> (5 - weekday now + 7) mod 7" "(5 - weekday now + 7) mod 7 < 7"
    by simp_all
  then show "1 \<le> friday_days_ahead now" "friday_days_ahead now \<le> 7"
    by (auto simp add: friday_days_ahead_def)
qed

lemma friday_find_weekday:
  "find_weekday friday_text now =
     bind_err (add_days now (friday_days_ahead now)) (\<lambda>target. Inr (Some target))"
  by (simp add: find_weekday_def friday_weekday group_def WEEKDAY_ORDER_def str_eval
      friday_days_ahead_def)

lemma friday_find_relative_day: "find_relative_day friday_text now = Inr None"
  by (simp add: find_relative_day_def friday_today friday_tomorrow friday_day_after)

lemma friday_find_explicit_date: "find_explicit_date friday_text now = Inr None"
  by (simp add: find_explicit_date_def friday_iso friday_slash friday_month)

lemma friday_apply_time:
  "apply_time friday_text (Some seed) now =
     Inr (Some (seed\<lparr>hour := 15, minute := 0, second := 0, microsecond := 0\<rparr>))"
  by (simp add: apply_time_def friday_time group_def grp_def int_of_digits_def clamp_value_def
      str_eval replace_time_def bind_err_def)

lemma friday_duration_slot: "duration_slot friday_text sl = sl"
  by (simp add: duration_slot_def friday_duration)

lemma friday_title_slots: "title_slots friday_text normalized_label sl = sl"
  by (simp add: title_slots_def friday_goal_title friday_journal_title Let_def)

lemma friday_derive_slots:
  assumes sched: "contains (lower (if rawLabel ri \<noteq> [] then rawLabel ri else label ri)) ''schedule''"
    and lo: "1 \<le> ordinal now" and hi: "ordinal now + 7 \<le> MAXORDINAL"
  shows "derive_slots friday_text ri (Some \<lparr>sf_userTimeZone = tz, sf_now = Some now\<rparr>) clock =
     Inr ((slots ri)(''start'' \<mapsto> minutes_to_iso
        \<lparr>ordinal = ordinal now + friday_days_ahead now, hour = 15, minute = 0, second = 0,
         microsecond = 0\<rparr>))"
proof -
  let ?k = "friday_days_ahead now"
  let ?target = "now\<lparr>ordinal := ordinal now + ?k\<rparr>"
  let ?cd = "?target\<lparr>hour := 15, minute := 0, second := 0, microsecond := 0\<rparr>"
  have k: "1 \<le> ?k" "?k \<le> 7" by (rule friday_days_ahead_range)+
  have add: "add_days now ?k = Inr ?target"
    using k lo hi by (simp add: add_days_def)
  let ?lit = "\<lparr>ordinal = ordinal now + ?k, hour = 15, minute = 0, second = 0, microsecond = 0\<rparr>"
  have later: "\<not> dt_less ?lit now"
    using k by (simp add: dt_less_def)
  have same: "(if c then ensure_past_is_future ?lit now else Inr ?lit) = Inr ?lit" for c
    using later by (simp add: ensure_past_is_future_def)
  have cd: "?cd = ?lit"
    by simp
  show ?thesis
    unfolding derive_slots_def resolve_now_def Let_def
    by (simp only: friday_find_weekday friday_find_relative_day friday_find_explicit_date add
        friday_apply_time friday_duration_slot friday_title_slots same cd
        bind_err_def sum.case option.case option.simps SlotFillOptions.simps simp_thms if_False if_True
        date_slots_def Let_def sched)
qed

lemma friday_days_ahead_weekday:
  "weekday \<lparr>ordinal = ordinal now + friday_days_ahead now, hour = h, minute = m, second = s,
     microsecond = u\<rparr> = 5"
proof -
  have "(ordinal now + friday_days_ahead now + 6) mod 7 = 5"
    unfolding friday_days_ahead_def weekday_def by presburger
  then show ?thesis
    by (simp add: weekday_def)
qed

lemma schedule_label: "contains (lower ''Schedule Create'') ''schedule''"
  by (simp add: str_eval)

lemma saturday_iso:
  "minutes_to_iso \<lparr>ordinal = 738891, hour = 15, minute = 0, second = 0, microsecond = 0\<rparr>
     = ''2024-01-06T15:00:00Z''"
  by (simp add: minutes_to_iso_def isoformat_def ord2ymd_def zpad_def str_nat.simps digit_chr_def
      DAYS_BEFORE_MONTH_def DAYS_IN_MONTH_def replace_def Let_def)

lemma make_date_2024_01:
  "make_date 2024 1 5 = Inr \<lparr>ordinal = 738890, hour = 0, minute = 0, second = 0, microsecond = 0\<rparr>"
  "make_date 2024 1 6 = Inr \<lparr>ordinal = 738891, hour = 0, minute = 0, second = 0, microsecond = 0\<rparr>"
  by (simp_all add: make_date_def days_in_month_def days_before_year_def days_before_month_def
      DAYS_BEFORE_MONTH_def DAYS_IN_MONTH_def is_leap_def Let_def)

text \<open>
  C2.  What the slot filler does with \<^verbatim>\<open>"schedule a call next friday at 3pm"\<close>, for every
  \<^verbatim>\<open>now\<close> (in UTC, at least a week before the last day that a datetime can hold) and every
  routed intent whose label contains \<^verbatim>\<open>schedule\<close>: it returns the slots of the intent with
  \<^verbatim>\<open>start\<close> set to 15:00:00 UTC on the day that is \<^verbatim>\<open>friday_days_ahead now\<close> days after the day
  of \<^verbatim>\<open>now\<close>.  That day is the one day among the seven after \<^verbatim>\<open>now\<close> whose \<^verbatim>\<open>weekday()\<close> is 5,
  and \<^verbatim>\<open>weekday()\<close> counts Monday as 0, Friday as 4 and Saturday as 5: the start slot is always
  on a Saturday and never on a Friday.  \<^verbatim>\<open>WEEKDAY_ORDER\<close> counts Sunday as 0 and gives Friday the
  index 5, and \<^verbatim>\<open>_find_weekday\<close> subtracts from it \<^verbatim>\<open>now.weekday()\<close>.  No other slot changes:
  the text holds a clock time, so the slot \<^verbatim>\<open>end\<close> is what it was in the intent, and none is
  added.
\<close>

theorem C2_next_friday_is_saturday:
  assumes "contains (lower (if rawLabel ri \<noteq> [] then rawLabel ri else label ri)) ''schedule''"
    and "1 \<le> ordinal now" and "ordinal now + 7 \<le> MAXORDINAL"
  shows "derive_slots friday_text ri (Some \<lparr>sf_userTimeZone = tz, sf_now = Some now\<rparr>) clock =
       Inr ((slots ri)(''start'' \<mapsto> minutes_to_iso
          \<lparr>ordinal = ordinal now + friday_days_ahead now, hour = 15, minute = 0, second = 0,
           microsecond = 0\<rparr>))
     \<and> 1 \<le> friday_days_ahead now \<and> friday_days_ahead now \<le> 7
     \<and> weekday \<lparr>ordinal = ordinal now + friday_days_ahead now, hour = 15, minute = 0, second = 0,
           microsecond = 0\<rparr> = 5
     \<and> (case derive_slots friday_text ri (Some \<lparr>sf_userTimeZone = tz, sf_now = Some now\<rparr>) clock of
          Inl e \<Rightarrow> False
        | Inr sl \<Rightarrow> sl ''end'' = slots ri ''end'' \<and> (\<forall>key. key \<noteq> ''start'' \<longrightarrow> sl key = slots ri key))"
proof -
  note eq = friday_derive_slots [OF assms, of tz clock]
  have "case derive_slots friday_text ri (Some \<lparr>sf_userTimeZone = tz, sf_now = Some now\<rparr>) clock of
          Inl e \<Rightarrow> False
        | Inr sl \<Rightarrow> sl ''end'' = slots ri ''end'' \<and> (\<forall>key. key \<noteq> ''start'' \<longrightarrow> sl key = slots ri key)"
    by (simp only: eq sum.case) simp
  with eq friday_days_ahead_range [of now] friday_days_ahead_weekday [of now 15 0 0 0]
  show ?thesis
    by (intro conjI)
qed

text \<open>
  On Monday 2024-01-01, 10:00 UTC, the hypotheses hold.  The start slot is 2024-01-06 at
  15:00, which is a Saturday: the upcoming Friday is 2024-01-05, whose \<^verbatim>\<open>weekday()\<close> is 4.  And
  there is no \<^verbatim>\<open>end\<close> slot, although the text gives no end time.
\<close>

theorem C2_next_friday_is_saturday_witness:
  "(case derive_slots friday_text schedule_intent
           (Some \<lparr>sf_userTimeZone = None, sf_now = Some monday_10am\<rparr>) monday_10am of
      Inl e \<Rightarrow> False
    | Inr sl \<Rightarrow> sl ''start'' = Some ''2024-01-06T15:00:00Z'' \<and> sl ''end'' = None)
   \<and> weekday monday_10am = 0
   \<and> make_date 2024 1 6 = Inr \<lparr>ordinal = 738891, hour = 0, minute = 0, second = 0, microsecond = 0\<rparr>
   \<and> weekday \<lparr>ordinal = 738891, hour = 15, minute = 0, second = 0, microsecond = 0\<rparr> = 5
   \<and> make_date 2024 1 5 = Inr \<lparr>ordinal = 738890, hour = 0, minute = 0, second = 0, microsecond = 0\<rparr>
   \<and> weekday \<lparr>ordinal = 738890, hour = 15, minute = 0, second = 0, microsecond = 0\<rparr> = 4"
proof -
  have a: "contains (lower (if rawLabel schedule_intent \<noteq> [] then rawLabel schedule_intent
                    else label schedule_intent)) ''schedule''"
    by (simp add: schedule_intent_def schedule_label)
  have b: "1 \<le> ordinal monday_10am" and c: "ordinal monday_10am + 7 \<le> MAXORDINAL"
    by (simp_all add: monday_10am_def MAXORDINAL_def)
  have k: "friday_days_ahead monday_10am = 5"
    by (simp add: friday_days_ahead_def weekday_def monday_10am_def)
  have ord: "ordinal monday_10am + friday_days_ahead monday_10am = 738891"
    by (simp add: k) (simp add: monday_10am_def)
  note all = C2_next_friday_is_saturday [OF a b c, of None monday_10am]
  have "derive_slots friday_text schedule_intent
           (Some \<lparr>sf_userTimeZone = None, sf_now = Some monday_10am\<rparr>) monday_10am
        = Inr ((slots schedule_intent)(''start'' \<mapsto> ''2024-01-06T15:00:00Z''))"
    using all [THEN conjunct1]
    by (simp only: ord saturday_iso)
  moreover have "slots schedule_intent = Map.empty"
    by (simp add: schedule_intent_def)
  ultimately have found:
    "case derive_slots friday_text schedule_intent
           (Some \<lparr>sf_userTimeZone = None, sf_now = Some monday_10am\<rparr>) monday_10am of
      Inl e \<Rightarrow> False
    | Inr sl \<Rightarrow> sl ''start'' = Some ''2024-01-06T15:00:00Z'' \<and> sl ''end'' = None"
    by simp
  have days: "weekday monday_10am = 0"
    "weekday \<lparr>ordinal = 738891, hour = 15, minute = 0, second = 0, microsecond = 0\<rparr> = 5"
    "weekday \<lparr>ordinal = 738890, hour = 15, minute = 0, second = 0, microsecond = 0\<rparr> = 4"
    by (simp_all add: weekday_def monday_10am_def)
  from found days make_date_2024_01 show ?thesis
    by (intro conjI)
qed

section \<open>The pipeline on the reminder to call\<close>

lemma mom_strip: "strip mom_text = mom_text"
  by (simp add: mom_text_def str_eval)

lemma mom_lower: "lower mom_text = mom_text"
  by (simp add: mom_text_def str_eval)

lemma mom_not_empty: "mom_text \<noteq> []"
  by (simp add: mom_text_def)

lemma mom_command: "re_search COMMAND_PATTERN mom_text = None"
  by (simp add: mom_text_def COMMAND_PATTERN_def rx_eval)

lemma mom_search: "\<not> is_search_query mom_text"
  by (simp add: mom_text_def is_search_query_def contains_phrase_def SEARCH_PHRASES_def)

lemma mom_additive: "\<not> has_additive_language mom_text"
  by (simp add: mom_text_def has_additive_language_def contains_phrase_def ADDITIVE_PHRASES_def)

lemma mom_pronoun: "re_search PRONOUN_ANCHORS mom_text = None"
  by (simp add: mom_text_def PRONOUN_ANCHORS_def rx_eval)

lemma mom_save: "has_save_language mom_text"
  by (simp add: mom_text_def has_save_language_def contains_phrase_def SAVE_PHRASES_def)

lemma mom_temporal: "has_temporal_marker mom_text"
  by (simp add: mom_text_def has_temporal_marker_def contains_phrase_def TEMPORAL_MARKERS_def)

lemma mom_action: "\<not> has_action_language mom_text"
  by (simp add: mom_text_def has_action_language_def ACTION_VERBS_def)

lemma mom_question: "re_search QUESTION_MARK mom_text = None"
  by (simp add: mom_text_def QUESTION_MARK_def rx_eval)

lemma mom_word_count: "word_count_of mom_text = 5"
  by (simp add: mom_text_def word_count_of_def rx_eval)

lemma mom_weekday: "re_search weekday_re mom_text = None"
  by (simp add: mom_text_def weekday_re_def rx_eval)

lemma mom_today: "re_search today_re mom_text = None"
  by (simp add: mom_text_def today_re_def rx_eval)

lemma mom_tomorrow: "re_search tomorrow_re mom_text \<noteq> None"
  by (simp add: mom_text_def tomorrow_re_def rx_eval)

lemma mom_iso: "re_search iso_date_re mom_text = None"
  by (simp add: mom_text_def iso_date_re_def rx_eval)

lemma mom_slash: "re_search slash_date_re mom_text = None"
  by (simp add: mom_text_def slash_date_re_def rx_eval)

lemma mom_month: "re_search month_date_re mom_text = None"
  by (simp add: mom_text_def month_date_re_def rx_eval)

lemma mom_time: "re_search apply_time_re mom_text = None"
  by (simp add: mom_text_def apply_time_re_def rx_eval)

lemma mom_duration: "re_search duration_re mom_text = None"
  by (simp add: mom_text_def duration_re_def rx_eval)

lemma mom_mask: "mask mom_text = \<lparr>masked = mom_text, replacementMap = []\<rparr>"
  by (simp add: mom_text_def mask_def mask_step_def PATTERNS_def email_re_def phone_re_def card_re_def
      address_re_def space_or_dash_def replacer_def rx_eval)

lemma mom_classify:
  "classify_riflett_intent mom_text recs cw =
     \<lparr>cl_label = ''entry_create'', cl_confidence = 0.97,
      reasons = (if pick_duplicate recs \<noteq> None
                 then [''High-similarity memory match without clear additive cue''] else [])
        @ [''Declarative content suitable for structured capture'',
           ''Explicit save/log intent detected'', ''Temporal marker detected''],
      targetEntryId = None, targetEntryType = None,
      duplicateMatch = map_option (\<lambda>d. \<lparr>dup_id = row_id d, dup_score = score d, dup_text = row_text d,
                                          dup_kind = row_kind d\<rparr>) (pick_duplicate recs),
      topCandidates = [(''entry_create'', 0.97),
                       (''entry_append'', if pick_duplicate recs \<noteq> None then 0.78 else 0.62),
                       (''conversational'', 0.6)]\<rparr>"
  by (simp add: classify_riflett_intent_def Let_def mom_strip mom_lower mom_not_empty mom_command
      mom_search mom_additive mom_pronoun mom_save mom_temporal mom_action mom_question
      mom_word_count create_confidence_of_def base_candidate_def)

lemma native_labels:
  "to_native_label ''entry_create'' = ''Entry Create''"
  "to_native_label ''entry_append'' = ''Entry Append''"
  "to_native_label ''conversational'' = ''Conversational''"
  by (simp_all add: to_native_label_def to_title_case_def title_split_re_def capitalize_def
      rx_eval str_eval)

lemma lookup_labels:
  "get_intent_definition ''Entry Create'' =
     \<lparr>def_id = ''entry_create'', def_label = ''Entry Create'', def_subsystem = ''entries'',
      def_entryType = Some ''journal'', allowedInEntryChat = False\<rparr>"
  "get_intent_definition ''Entry Append'' =
     \<lparr>def_id = ''entry_append'', def_label = ''Entry Append'', def_subsystem = ''entries'',
      def_entryType = Some ''journal'', allowedInEntryChat = True\<rparr>"
  "get_intent_definition ''Conversational'' =
     \<lparr>def_id = ''conversational'', def_label = ''Conversational'', def_subsystem = ''entries'',
      def_entryType = Some ''journal'', allowedInEntryChat = True\<rparr>"
  by (simp_all add: get_intent_definition_def lookup_def definitions_def str_eval)

lemma pascal_labels:
  "to_pascal_case ''Entry Create'' = ''EntryCreate''"
  "to_pascal_case ''Entry Append'' = ''EntryAppend''"
  "to_pascal_case ''Conversational'' = ''Conversational''"
  by (simp_all add: to_pascal_case_def to_title_case_def title_split_re_def capitalize_def
      rx_eval str_eval)

lemma mom_routed:
  assumes x: "x = 0.78 \<or> x = 0.62"
  shows "build_routed_intent
       \<lparr>ni_label = Some ''Entry Create'', ni_confidence = Some 0.97,
        ni_top3 = Some [(''Entry Create'', 0.97), (''Entry Append'', x), (''Conversational'', 0.6)],
        ni_topK = Some [(''Entry Create'', 0.97), (''Entry Append'', x), (''Conversational'', 0.6)],
        ni_modelVersion = Some ''riflett-heuristic-2025-11-07'', ni_matchedTokens = Some [],
        ni_tokens = Some []\<rparr> None =
     \<lparr>label = ''EntryCreate'', rawLabel = ''Entry Create'', confidence = 0.97,
      secondBest = Some ''EntryAppend'', secondConfidence = Some x, slots = Map.empty,
      topK = [(''Entry Create'', 0.97), (''Entry Append'', x), (''Conversational'', 0.6)],
      modelVersion = Some ''riflett-heuristic-2025-11-07'',
      matchedTokens = Some [(''EntryCreate'', []), (''EntryAppend'', []), (''Conversational'', [])],
      tokens = Some []\<rparr>"
  using x
  by (auto simp add: build_routed_intent_def normalize_top_k_def normalize_step_def clamp_def
      lookup_labels pascal_labels tokens_for_def Let_def)

lemma mom_labels:
  "\<not> contains (lower ''EntryCreate'') ''schedule''"
  "\<not> contains (lower ''Entry Create'') ''schedule''"
  "\<not> contains (lower ''Entry Create'') ''goal''"
  "\<not> contains (lower ''Entry Create'') ''journal''"
  by (simp_all add: str_eval)

lemma mom_find_relative_day:
  assumes lo: "1 \<le> ordinal clock" and hi: "ordinal clock < MAXORDINAL"
  shows "find_relative_day mom_text clock = Inr (Some (clock\<lparr>ordinal := ordinal clock + 1\<rparr>))"
proof -
  have add: "add_days clock 1 = Inr (clock\<lparr>ordinal := ordinal clock + 1\<rparr>)"
    using lo hi by (simp add: add_days_def)
  show ?thesis
    by (simp add: find_relative_day_def mom_today mom_tomorrow add bind_err_def)
qed

lemma mom_derive_slots:
  assumes l: "label ri = ''EntryCreate''" and r: "rawLabel ri = ''Entry Create''"
    and lo: "1 \<le> ordinal clock" and hi: "ordinal clock < MAXORDINAL"
  shows "derive_slots mom_text ri (Some \<lparr>sf_userTimeZone = tz, sf_now = None\<rparr>) clock = Inr (slots ri)"
proof -
  have fw: "find_weekday mom_text clock = Inr None"
    by (simp add: find_weekday_def mom_weekday)
  have fr: "find_relative_day mom_text clock = Inr (Some (clock\<lparr>ordinal := ordinal clock + 1\<rparr>))"
    using lo hi by (rule mom_find_relative_day)
  have fe: "find_explicit_date mom_text clock = Inr None"
    by (simp add: find_explicit_date_def mom_iso mom_slash mom_month)
  have at: "apply_time mom_text seed clock = Inr None" for seed
    by (simp add: apply_time_def mom_time)
  have ds: "duration_slot mom_text sl = sl" for sl
    by (simp add: duration_slot_def mom_duration)
  have ts: "title_slots mom_text (lower ''Entry Create'') sl = sl" for sl
    by (simp add: title_slots_def mom_labels Let_def)
  have dt: "date_slots (lower ''Entry Create'') False d sl = Inr sl" for d sl
    by (simp add: date_slots_def mom_labels Let_def)
  show ?thesis
    unfolding derive_slots_def resolve_now_def Let_def l r
    by (simp add: fw fr fe at ds ts dt bind_err_def mom_labels)
qed

lemma mom_route:
  assumes "x = 0.78 \<or> x = 0.62"
  shows "route_intent \<lparr>label = ''EntryCreate'', rawLabel = ''Entry Create'', confidence = 0.97,
      secondBest = Some ''EntryAppend'', secondConfidence = Some x, slots = sl,
      topK = tk, modelVersion = mv, matchedTokens = mt, tokens = tks\<rparr>
    = \<lparr>kind = commit, primary = Some ''EntryCreate'', maybeSecondary = Some ''EntryAppend'',
       question = None\<rparr>"
  using assms
  by (auto simp add: route_intent_def ROUTE_AT_THRESHOLD_def SECONDARY_INTENT_THRESHOLD_def)

text \<open>
  C1.  What \<^verbatim>\<open>handle_utterance\<close> does with \<^verbatim>\<open>"remember to call mom tomorrow"\<close>, for every time
  zone, every list of context records, every context window and every clock before the last
  day that a datetime can hold.  It does not raise; the decision is a commit to
  \<^verbatim>\<open>EntryCreate\<close>; the masked text is the text itself, which is not empty.  The slot filler
  resolves \<^verbatim>\<open>tomorrow\<close> to the day after the clock's day, but stores a date only for a label that
  contains \<^verbatim>\<open>schedule\<close>, \<^verbatim>\<open>goal\<close> or \<^verbatim>\<open>journal\<close>, and the label here is \<^verbatim>\<open>Entry Create\<close>: the
  slots of the routed intent are empty, and hold no date.
\<close>

theorem C1_reminder_without_date:
  assumes lo: "1 \<le> ordinal (env_clock env)" and hi: "ordinal (env_clock env) < MAXORDINAL"
  shows "(case handle_utterance mom_text tz env of
       Inl e \<Rightarrow> False
     | Inr r \<Rightarrow>
         decision r = \<lparr>kind = commit, primary = Some ''EntryCreate'',
                       maybeSecondary = Some ''EntryAppend'', question = None\<rparr>
         \<and> masked (redaction r) = mom_text
         \<and> userText (payload r) = mom_text
         \<and> label (routedIntent r) = ''EntryCreate''
         \<and> rawLabel (routedIntent r) = ''Entry Create''
         \<and> slots (routedIntent r) = Map.empty
         \<and> slots (intent (payload r)) = Map.empty)
     \<and> mom_text \<noteq> []
     \<and> find_relative_day mom_text (env_clock env)
         = Inr (Some ((env_clock env)\<lparr>ordinal := ordinal (env_clock env) + 1\<rparr>))"
proof -
  define x :: real where "x = (if pick_duplicate (env_context_records env) \<noteq> None then 0.78 else 0.62)"
  have x: "x = 0.78 \<or> x = 0.62" by (simp add: x_def)
  define native where "native =
       \<lparr>ni_label = Some ''Entry Create'', ni_confidence = Some (0.97 :: real),
        ni_top3 = Some [(''Entry Create'', 0.97), (''Entry Append'', x), (''Conversational'', 0.6)],
        ni_topK = Some [(''Entry Create'', 0.97), (''Entry Append'', x), (''Conversational'', 0.6)],
        ni_modelVersion = Some ''riflett-heuristic-2025-11-07'', ni_matchedTokens = Some [],
        ni_tokens = Some []\<rparr>"
  define base where "base = build_routed_intent native None"
  have base: "base = \<lparr>label = ''EntryCreate'', rawLabel = ''Entry Create'', confidence = 0.97,
      secondBest = Some ''EntryAppend'', secondConfidence = Some x, slots = Map.empty,
      topK = [(''Entry Create'', 0.97), (''Entry Append'', x), (''Conversational'', 0.6)],
      modelVersion = Some ''riflett-heuristic-2025-11-07'',
      matchedTokens = Some [(''EntryCreate'', []), (''EntryAppend'', []), (''Conversational'', [])],
      tokens = Some []\<rparr>"
    unfolding base_def native_def by (rule mom_routed [OF x])
  have sl: "derive_slots mom_text base (Some \<lparr>sf_userTimeZone = tz, sf_now = None\<rparr>) (env_clock env)
      = Inr (slots base)"
    by (rule mom_derive_slots) (simp_all add: base lo hi)
  have fl: "fill mom_text base (Some \<lparr>sf_userTimeZone = tz, sf_now = None\<rparr>) (env_clock env) = Inr base"
    by (simp add: fill_def sl bind_err_def)
  have rt: "route_intent base = \<lparr>kind = commit, primary = Some ''EntryCreate'',
      maybeSecondary = Some ''EntryAppend'', question = None\<rparr>"
    unfolding base by (rule mom_route [OF x])
  have native_eq: "\<lparr>ni_label = Some (to_native_label (cl_label (classify_riflett_intent mom_text (env_context_records env) (env_window env)))),
        ni_confidence = Some (cl_confidence (classify_riflett_intent mom_text (env_context_records env) (env_window env))),
        ni_top3 = Some (native_candidates (take 3 (topCandidates (classify_riflett_intent mom_text (env_context_records env) (env_window env))))),
        ni_topK = Some (native_candidates (topCandidates (classify_riflett_intent mom_text (env_context_records env) (env_window env)))),
        ni_modelVersion = Some ''riflett-heuristic-2025-11-07'',
        ni_matchedTokens = Some [], ni_tokens = Some []\<rparr> = native"
    by (simp add: mom_classify native_candidates_def native_labels native_def x_def)
  have r1: "route_intent (build_routed_intent native None) = \<lparr>kind = commit,
      primary = Some ''EntryCreate'', maybeSecondary = Some ''EntryAppend'', question = None\<rparr>"
    using rt by (simp only: base_def)
  have r2: "label (build_routed_intent native None) = ''EntryCreate''"
    "rawLabel (build_routed_intent native None) = ''Entry Create''"
    "slots (build_routed_intent native None) = Map.empty"
    by (simp_all add: base [unfolded base_def])
  have mm: "masked (mask mom_text) = mom_text"
    by (simp add: mom_mask)
  have "case handle_utterance mom_text tz env of
       Inl e \<Rightarrow> False
     | Inr r \<Rightarrow>
         decision r = \<lparr>kind = commit, primary = Some ''EntryCreate'',
                       maybeSecondary = Some ''EntryAppend'', question = None\<rparr>
         \<and> masked (redaction r) = mom_text
         \<and> userText (payload r) = mom_text
         \<and> label (routedIntent r) = ''EntryCreate''
         \<and> rawLabel (routedIntent r) = ''Entry Create''
         \<and> slots (routedIntent r) = Map.empty
         \<and> slots (intent (payload r)) = Map.empty"
    unfolding handle_utterance_def Let_def mom_strip native_eq
    by (simp only: mom_not_empty if_False fl [unfolded base_def])
       (simp add: bind_err_def r1 r2 mm)
  with mom_not_empty mom_find_relative_day [OF lo hi] show ?thesis
    by (intro conjI)
qed

text \<open>
  With no context records, an empty window and the clock at Monday 2024-01-01, 10:00 UTC, the
  hypotheses hold: the call returns a commit to \<^verbatim>\<open>EntryCreate\<close> with empty slots, while
  \<^verbatim>\<open>_find_relative_day\<close> finds the day 2024-01-02.
\<close>

theorem C1_reminder_without_date_witness:
  "(case handle_utterance mom_text None quiet_env of
       Inl e \<Rightarrow> False
     | Inr r \<Rightarrow>
         kind (decision r) = commit
         \<and> masked (redaction r) = ''remember to call mom tomorrow''
         \<and> slots (routedIntent r) = Map.empty)
   \<and> find_relative_day mom_text (env_clock quiet_env)
       = Inr (Some \<lparr>ordinal = 738887, hour = 10, minute = 0, second = 0, microsecond = 0\<rparr>)
   \<and> make_date 2024 1 2 = Inr \<lparr>ordinal = 738887, hour = 0, minute = 0, second = 0, microsecond = 0\<rparr>"
proof -
  have a: "1 \<le> ordinal (env_clock quiet_env)" and b: "ordinal (env_clock quiet_env) < MAXORDINAL"
    by (simp_all add: quiet_env_def monday_10am_def MAXORDINAL_def)
  note all = C1_reminder_without_date [OF a b, of None]
  have "case handle_utterance mom_text None quiet_env of
       Inl e \<Rightarrow> False
     | Inr r \<Rightarrow>
         kind (decision r) = commit
         \<and> masked (redaction r) = ''remember to call mom tomorrow''
         \<and> slots (routedIntent r) = Map.empty"
    using all [THEN conjunct1] by (cases "handle_utterance mom_text None quiet_env") (simp_all add: mom_text_def)
  moreover have "find_relative_day mom_text (env_clock quiet_env)
       = Inr (Some \<lparr>ordinal = 738887, hour = 10, minute = 0, second = 0, microsecond = 0\<rparr>)"
    using all [THEN conjunct2, THEN conjunct2] by (simp add: quiet_env_def monday_10am_def)
  moreover have "make_date 2024 1 2
       = Inr \<lparr>ordinal = 738887, hour = 0, minute = 0, second = 0, microsecond = 0\<rparr>"
    by (simp add: make_date_def days_in_month_def days_before_year_def days_before_month_def
        DAYS_BEFORE_MONTH_def DAYS_IN_MONTH_def is_leap_def Let_def)
  ultimately show ?thesis
    by (intro conjI)
qed

end
